theory Spec2Isabelle
  imports Main
begin

section \<open>The self-distillation training driver (run.py)\<close>

text \<open>
  The repository's one source file is the training driver
  \<^verbatim>\<open>research/Matroyshka_reranker/finetune/self_distillation/run.py\<close>. Its \<^verbatim>\<open>main\<close> is
  straight-line Python over library calls (argument parser, tokenizer and config loaders,
  model constructors, the trainer). The embedding keeps the statements of \<^verbatim>\<open>main\<close> in
  source order. Every library call is an event of the run; what the call returns, or the
  exception it raises, is read from a record of the run's environment. A run is the list of
  calls it made together with its result: an error (an exception left \<^verbatim>\<open>main\<close>) or unit.
\<close>

subsection \<open>Argument dataclasses and library objects\<close>

text \<open>
  \<^verbatim>\<open>arguments.py\<close> is not among the sources: the three dataclasses carry the fields that
  \<^verbatim>\<open>main\<close> reads, under the names it reads them by. An \<^verbatim>\<open>Optional[str]\<close> is a
  \<open>string option\<close>.
\<close>

record ModelArguments =
  model_name_or_path :: string
  config_name :: "string option"
  tokenizer_name :: "string option"
  cache_dir :: "string option"
  token :: "string option"
  padding_side :: string
  compress_method :: string
  start_layer :: int
  compress_layers :: "int list"
  compress_ratios :: "int list"
  train_method :: string
  use_lora :: bool

record DataArguments =
  query_max_len :: int
  passage_max_len :: int

record TrainingArguments =
  output_dir :: string
  do_train :: bool
  overwrite_output_dir :: bool
  local_rank :: int
  fp16 :: bool
  seed :: int
  per_device_train_batch_size :: int
  gradient_checkpointing :: bool
  resume_from_checkpoint :: "string option"

text \<open>
  An attribute that only some tokenizer classes define (\<^verbatim>\<open>eod_id\<close>, \<^verbatim>\<open>im_start_id\<close>,
  \<^verbatim>\<open>im_end_id\<close>): reading it from an object that lacks it raises \<^verbatim>\<open>AttributeError\<close>.
\<close>

datatype 'a attr = Missing | Attr 'a

text \<open>
  The tokenizer object, with the attributes \<^verbatim>\<open>main\<close> reads or assigns. A token id is
  \<^verbatim>\<open>None\<close> or an integer. The field \<open>tok_padding_side\<close> is the tokenizer's
  \<^verbatim>\<open>padding_side\<close> (renamed: the model arguments have a field of that name).
\<close>

record tokenizer =
  pad_token_id :: "int option"
  unk_token_id :: "int option"
  bos_token_id :: "int option"
  eos_token_id :: "int option"
  eod_id :: "int option attr"
  im_start_id :: "int option attr"
  im_end_id :: "int option attr"
  tok_padding_side :: string

text \<open>The base model returned by \<^verbatim>\<open>get_model\<close>: \<^verbatim>\<open>base_model.config.num_hidden_layers\<close>.\<close>

record base_model =
  num_hidden_layers :: int

text \<open>The keyword arguments of the \<^verbatim>\<open>BiEncoderModel(...)\<close> call, lines 88 to 95.\<close>

record BiEncoderModel_args =
  arg_model :: base_model
  arg_tokenizer :: tokenizer
  arg_compress_method :: string
  arg_train_batch_size :: int
  cutoff_layers :: "int list"
  arg_compress_layers :: "int list"
  arg_compress_ratios :: "int list"
  arg_train_method :: string

text \<open>The keyword arguments of the \<^verbatim>\<open>RerankCollator(...)\<close> call, lines 108 to 115.\<close>

record RerankCollator_args =
  col_tokenizer :: tokenizer
  col_query_max_len :: int
  col_passage_max_len :: int
  pad_to_multiple_of :: int
  return_tensors :: string
  padding :: bool

subsection \<open>Events, errors and runs\<close>

datatype log_level = INFO | WARN

text \<open>One constructor per library call of \<^verbatim>\<open>main\<close>, in source order, with the arguments passed.\<close>

datatype event =
    EvParseArgs
  | EvPathExists string
  | EvListDir string
  | EvLoggingBasicConfig log_level
  | EvLoggerWarning int bool bool
  | EvLoggerInfo string
  | EvSetSeed int
  | EvTokenizerFromPretrained string
  | EvTokenizerCall string
  | EvGetModel int
  | EvConfigFromPretrained string
  | EvBiEncoderModel BiEncoderModel_args
  | EvEnableInputRequireGrads
  | EvTrainDataset tokenizer
  | EvRerankCollator RerankCollator_args
  | EvBiTrainer
  | EvMkdir string
  | EvTrain "string option"
  | EvSaveModel
  | EvSaveCheckpoint string
  | EvIsWorldProcessZero
  | EvTokenizerSavePretrained string

text \<open>The name of the exception class a library call raised.\<close>

type_synonym exn = string

text \<open>
  What leaves \<^verbatim>\<open>main\<close> as an exception: the \<^verbatim>\<open>ValueError\<close> of its own \<^verbatim>\<open>raise\<close>
  statement (line 33, with its message), an \<^verbatim>\<open>AttributeError\<close> or \<^verbatim>\<open>IndexError\<close> of an
  expression of \<^verbatim>\<open>main\<close>, or whatever a library call raised.
\<close>

datatype error =
    ValueError string
  | AttributeError string
  | IndexError
  | Raised event exn

type_synonym 'a run = "event list \<times> (error + 'a)"

definition ret :: "'a \<Rightarrow> 'a run" where
  "ret x = ([], Inr x)"

definition raise :: "error \<Rightarrow> 'a run" where
  "raise e = ([], Inl e)"

text \<open>
  Sequencing: the second statement runs only if the first returned; an exception ends the
  run with the calls made so far.
\<close>

definition and_then :: "'a run \<Rightarrow> ('a \<Rightarrow> 'b run) \<Rightarrow> 'b run" where
  "and_then m f =
     (case m of
        (tr, Inl e) \<Rightarrow> (tr, Inl e)
      | (tr, Inr x) \<Rightarrow> (case f x of (tr', r) \<Rightarrow> (tr @ tr', r)))"

text \<open>A library call: the call is made, then it returns a value or raises.\<close>

definition call :: "event \<Rightarrow> exn + 'a \<Rightarrow> 'a run" where
  "call ev outcome =
     ([ev], case outcome of Inl x \<Rightarrow> Inl (Raised ev x) | Inr v \<Rightarrow> Inr v)"

text \<open>Reading an attribute that the object may lack.\<close>

definition getattr :: "string \<Rightarrow> 'a attr \<Rightarrow> 'a run" where
  "getattr name a = (case a of Missing \<Rightarrow> raise (AttributeError name) | Attr v \<Rightarrow> ret v)"

subsection \<open>The environment of a run\<close>

text \<open>
  What each library call does in this run: \<open>Inl\<close> the exception it raises, \<open>Inr\<close> the
  value it returns. \<^verbatim>\<open>os.path.exists\<close> returns a truth value and never raises. The field
  \<open>trainer_deepspeed\<close> is the attribute \<^verbatim>\<open>trainer.deepspeed\<close> after training: \<^verbatim>\<open>None\<close> when
  the trainer runs without a DeepSpeed engine, otherwise the engine, given by what its
  \<^verbatim>\<open>save_checkpoint\<close> does. The model objects are opaque: of the base model only
  \<^verbatim>\<open>config.num_hidden_layers\<close> is read.
\<close>

record world =
  parse_args_into_dataclasses :: "exn + (ModelArguments \<times> DataArguments \<times> TrainingArguments)"
  path_exists :: "string \<Rightarrow> bool"
  listdir :: "string \<Rightarrow> exn + string list"
  set_seed :: "exn + unit"
  tokenizer_from_pretrained :: "string \<Rightarrow> exn + tokenizer"
  tokenizer_call :: "string \<Rightarrow> exn + int list"
  get_model :: "exn + base_model"
  config_from_pretrained :: "string \<Rightarrow> exn + unit"
  BiEncoderModel_init :: "exn + unit"
  enable_input_require_grads :: "exn + unit"
  TrainDatasetForReranker_init :: "exn + unit"
  RerankCollator_init :: "exn + unit"
  BiTrainer_init :: "exn + unit"
  mkdir :: "string \<Rightarrow> exn + unit"
  train :: "exn + unit"
  save_model :: "exn + unit"
  trainer_deepspeed :: "(exn + unit) option"
  is_world_process_zero :: "exn + bool"
  save_pretrained :: "exn + unit"

subsection \<open>Python expressions used by main\<close>

text \<open>\<^verbatim>\<open>x if x else y\<close> for an optional string \<^verbatim>\<open>x\<close>: \<^verbatim>\<open>None\<close> and \<^verbatim>\<open>''\<close> are falsy.\<close>

definition if_else :: "string option \<Rightarrow> string \<Rightarrow> string" where
  "if_else x y = (case x of None \<Rightarrow> y | Some s \<Rightarrow> if s \<noteq> [] then s else y)"

text \<open>\<^verbatim>\<open>list(range(start, stop))\<close>: count up from \<^verbatim>\<open>start\<close> while below \<^verbatim>\<open>stop\<close>.\<close>

function py_range :: "int \<Rightarrow> int \<Rightarrow> int list" where
  "py_range i stop = (if i < stop then i # py_range (i + 1) stop else [])"
  by pat_completeness auto
termination
  by (relation "measure (\<lambda>(i, stop). nat (stop - i))") auto

declare py_range.simps [simp del]

text \<open>
  \<^verbatim>\<open>os.path.join(a, b)\<close> on POSIX: an absolute \<^verbatim>\<open>b\<close> replaces \<^verbatim>\<open>a\<close>; otherwise \<^verbatim>\<open>b\<close> is
  appended, after a separator unless \<^verbatim>\<open>a\<close> is empty or already ends with one.
\<close>

definition os_path_join :: "string \<Rightarrow> string \<Rightarrow> string" where
  "os_path_join a b =
     (if b \<noteq> [] \<and> hd b = CHR ''/'' then b
      else if a = [] \<or> last a = CHR ''/'' then a @ b
      else a @ ''/'' @ b)"

text \<open>\<^verbatim>\<open>ids[-1]\<close>: the last element, \<^verbatim>\<open>IndexError\<close> on an empty list.\<close>

definition last_item :: "int list \<Rightarrow> int run" where
  "last_item ids = (if ids = [] then raise IndexError else ret (last ids))"

subsection \<open>The blocks of main\<close>

text \<open>
  Lines 27 to 35. \<^verbatim>\<open>and\<close> evaluates left to right and stops at the first falsy operand:
  \<^verbatim>\<open>os.listdir\<close> is called only when the path exists, and its result is truthy when the
  listing is not empty.
\<close>

definition output_dir_message :: "string \<Rightarrow> string" where
  "output_dir_message d =
     ''Output directory ('' @ d @
     '') already exists and is not empty. Use --overwrite_output_dir to overcome.''"

definition check_output_dir :: "world \<Rightarrow> TrainingArguments \<Rightarrow> unit run" where
  "check_output_dir w training_args =
     and_then (call (EvPathExists (output_dir training_args))
                 (Inr (path_exists w (output_dir training_args)))) (\<lambda>ex.
       if \<not> ex then ret ()
       else
         and_then (call (EvListDir (output_dir training_args))
                     (listdir w (output_dir training_args))) (\<lambda>entries.
           if entries \<noteq> [] \<and> do_train training_args
              \<and> \<not> overwrite_output_dir training_args
           then raise (ValueError (output_dir_message (output_dir training_args)))
           else ret ()))"

text \<open>
  Lines 38 to 53: the logging calls. Of the arguments of \<^verbatim>\<open>logger.warning\<close> the event keeps
  the local rank, the distributed flag \<^verbatim>\<open>local_rank != -1\<close> and \<^verbatim>\<open>fp16\<close>.
\<close>

definition setup_logging :: "TrainingArguments \<Rightarrow> unit run" where
  "setup_logging training_args =
     ([EvLoggingBasicConfig
         (if local_rank training_args \<in> {-1, 0} then INFO else WARN),
       EvLoggerWarning (local_rank training_args) (local_rank training_args \<noteq> -1)
         (fp16 training_args),
       EvLoggerInfo ''Training/evaluation parameters %s'',
       EvLoggerInfo ''Model parameters %s'',
       EvLoggerInfo ''Data parameters %s''], Inr ())"

text \<open>Lines 68 to 74: the pad-token fallback.\<close>

definition pad_token_fallback :: "tokenizer \<Rightarrow> tokenizer run" where
  "pad_token_fallback tok =
     (if pad_token_id tok = None then
        if unk_token_id tok \<noteq> None then
          ret (tok\<lparr>pad_token_id := unk_token_id tok\<rparr>)
        else
          and_then (getattr ''eod_id'' (eod_id tok)) (\<lambda>eod.
            if eod \<noteq> None then
              and_then (getattr ''eod_id'' (eod_id tok)) (\<lambda>eod'.
              and_then (getattr ''im_start_id'' (im_start_id tok)) (\<lambda>im_start.
              and_then (getattr ''im_end_id'' (im_end_id tok)) (\<lambda>im_end.
                ret (tok\<lparr>pad_token_id := eod', bos_token_id := im_start,
                         eos_token_id := im_end\<rparr>))))
            else ret tok)
      else ret tok)"

text \<open>Lines 68 to 75: the fallback, then \<^verbatim>\<open>tokenizer.padding_side = model_args.padding_side\<close>.\<close>

definition setup_tokenizer :: "ModelArguments \<Rightarrow> tokenizer \<Rightarrow> tokenizer run" where
  "setup_tokenizer model_args tok =
     and_then (pad_token_fallback tok) (\<lambda>tok'.
       ret (tok'\<lparr>tok_padding_side := padding_side model_args\<rparr>))"

text \<open>
  Lines 126 to 128: the final checkpoint. \<^verbatim>\<open>trainer.deepspeed.save_checkpoint\<close> looks the
  method up on \<^verbatim>\<open>trainer.deepspeed\<close>: on \<^verbatim>\<open>None\<close> the lookup raises \<^verbatim>\<open>AttributeError\<close> in
  \<^verbatim>\<open>main\<close> and nothing is called.
\<close>

definition save_final_checkpoint ::
  "world \<Rightarrow> ModelArguments \<Rightarrow> TrainingArguments \<Rightarrow> unit run" where
  "save_final_checkpoint w model_args training_args =
     (if \<not> use_lora model_args then
        (case trainer_deepspeed w of
           None \<Rightarrow> raise (AttributeError ''save_checkpoint'')
         | Some outcome \<Rightarrow>
             call (EvSaveCheckpoint
                     (os_path_join (output_dir training_args) ''checkpoint-final''))
               outcome)
      else ret ())"

text \<open>Lines 123 to 132: training and what is saved after it.\<close>

definition train_and_save :: "world \<Rightarrow> ModelArguments \<Rightarrow> TrainingArguments \<Rightarrow> unit run" where
  "train_and_save w model_args training_args =
     and_then (call (EvTrain (resume_from_checkpoint training_args)) (train w)) (\<lambda>_.
     and_then (call EvSaveModel (save_model w)) (\<lambda>_.
     and_then (save_final_checkpoint w model_args training_args) (\<lambda>_.
     and_then (call EvIsWorldProcessZero (is_world_process_zero w)) (\<lambda>zero.
       if zero
       then call (EvTokenizerSavePretrained (output_dir training_args)) (save_pretrained w)
       else ret ()))))"

subsection \<open>main\<close>

text \<open>
  Lines 21 to 132, statement by statement. Line 118 stores \<^verbatim>\<open>model_args.use_lora\<close> on the
  trainer object; \<^verbatim>\<open>main\<close> never reads it back (line 126 reads the model arguments), so
  it has no event. Arguments of a call are evaluated before the call: the collator is built
  before the trainer, and \<^verbatim>\<open>'Yes'\<close> is tokenized before \<^verbatim>\<open>get_model\<close> is entered.
\<close>

definition main :: "world \<Rightarrow> unit run" where
  "main w =
     and_then (call EvParseArgs (parse_args_into_dataclasses w))
       (\<lambda>(model_args, data_args, training_args).
     and_then (check_output_dir w training_args) (\<lambda>_.
     and_then (setup_logging training_args) (\<lambda>_.
     and_then (call (EvSetSeed (seed training_args)) (set_seed w)) (\<lambda>_.
     and_then (call (EvTokenizerFromPretrained
                       (if_else (tokenizer_name model_args) (model_name_or_path model_args)))
                 (tokenizer_from_pretrained w
                    (if_else (tokenizer_name model_args) (model_name_or_path model_args))))
       (\<lambda>loaded.
     and_then (setup_tokenizer model_args loaded) (\<lambda>tokenizer.
     and_then (call (EvTokenizerCall ''Yes'') (tokenizer_call w ''Yes'')) (\<lambda>input_ids.
     and_then (last_item input_ids) (\<lambda>yes_id.
     and_then (call (EvGetModel yes_id) (get_model w)) (\<lambda>base_model.
     and_then (call (EvConfigFromPretrained
                       (if_else (config_name model_args) (model_name_or_path model_args)))
                 (config_from_pretrained w
                    (if_else (config_name model_args) (model_name_or_path model_args))))
       (\<lambda>_.
     and_then (call (EvLoggerInfo ''Config: %s'') (Inr ())) (\<lambda>_.
     and_then (call (EvBiEncoderModel
                       \<lparr>arg_model = base_model,
                        arg_tokenizer = tokenizer,
                        arg_compress_method = compress_method model_args,
                        arg_train_batch_size = per_device_train_batch_size training_args,
                        cutoff_layers =
                          py_range (start_layer model_args) (num_hidden_layers base_model + 1),
                        arg_compress_layers = compress_layers model_args,
                        arg_compress_ratios = compress_ratios model_args,
                        arg_train_method = train_method model_args\<rparr>)
                 (BiEncoderModel_init w)) (\<lambda>_.
     and_then (if gradient_checkpointing training_args
               then call EvEnableInputRequireGrads (enable_input_require_grads w)
               else ret ()) (\<lambda>_.
     and_then (call (EvTrainDataset tokenizer) (TrainDatasetForReranker_init w)) (\<lambda>_.
     and_then (call (EvRerankCollator
                       \<lparr>col_tokenizer = tokenizer,
                        col_query_max_len = query_max_len data_args,
                        col_passage_max_len = passage_max_len data_args,
                        pad_to_multiple_of = 8,
                        return_tensors = ''pt'',
                        padding = True\<rparr>)
                 (RerankCollator_init w)) (\<lambda>_.
     and_then (call EvBiTrainer (BiTrainer_init w)) (\<lambda>_.
     and_then (call (EvMkdir (output_dir training_args))
                 (mkdir w (output_dir training_args))) (\<lambda>_.
       train_and_save w model_args training_args)))))))))))))))))"

subsection \<open>Source order of the calls, and the stages of the pipeline\<close>

text \<open>The position of each call in the text of \<^verbatim>\<open>main\<close>.\<close>

fun event_rank :: "event \<Rightarrow> nat" where
  "event_rank EvParseArgs = 0"
| "event_rank (EvPathExists _) = 1"
| "event_rank (EvListDir _) = 2"
| "event_rank (EvLoggingBasicConfig _) = 3"
| "event_rank (EvLoggerWarning _ _ _) = 4"
| "event_rank (EvLoggerInfo s) =
     (if s = ''Training/evaluation parameters %s'' then 5
      else if s = ''Model parameters %s'' then 6
      else if s = ''Data parameters %s'' then 7 else 13)"
| "event_rank (EvSetSeed _) = 8"
| "event_rank (EvTokenizerFromPretrained _) = 9"
| "event_rank (EvTokenizerCall _) = 10"
| "event_rank (EvGetModel _) = 11"
| "event_rank (EvConfigFromPretrained _) = 12"
| "event_rank (EvBiEncoderModel _) = 14"
| "event_rank EvEnableInputRequireGrads = 15"
| "event_rank (EvTrainDataset _) = 16"
| "event_rank (EvRerankCollator _) = 17"
| "event_rank EvBiTrainer = 18"
| "event_rank (EvMkdir _) = 19"
| "event_rank (EvTrain _) = 20"
| "event_rank EvSaveModel = 21"
| "event_rank (EvSaveCheckpoint _) = 22"
| "event_rank EvIsWorldProcessZero = 23"
| "event_rank (EvTokenizerSavePretrained _) = 24"

text \<open>
  The seven stages of the pipeline and the calls that belong to each. The directory check,
  logging, seeding, the tokenization of \<^verbatim>\<open>'Yes'\<close>, the config load,
  \<^verbatim>\<open>enable_input_require_grads\<close>, the trainer's construction, \<^verbatim>\<open>mkdir\<close> and
  \<^verbatim>\<open>is_world_process_zero\<close> belong to none of them.
\<close>

datatype stage =
    ArgumentParsing
  | TokenizerSetup
  | BaseModelLoading
  | WrapperConstruction
  | DatasetAndCollator
  | TrainingLoop
  | Persistence

fun stage_index :: "stage \<Rightarrow> nat" where
  "stage_index ArgumentParsing = 1"
| "stage_index TokenizerSetup = 2"
| "stage_index BaseModelLoading = 3"
| "stage_index WrapperConstruction = 4"
| "stage_index DatasetAndCollator = 5"
| "stage_index TrainingLoop = 6"
| "stage_index Persistence = 7"

fun stage_of :: "event \<Rightarrow> stage option" where
  "stage_of EvParseArgs = Some ArgumentParsing"
| "stage_of (EvTokenizerFromPretrained _) = Some TokenizerSetup"
| "stage_of (EvGetModel _) = Some BaseModelLoading"
| "stage_of (EvBiEncoderModel _) = Some WrapperConstruction"
| "stage_of (EvTrainDataset _) = Some DatasetAndCollator"
| "stage_of (EvRerankCollator _) = Some DatasetAndCollator"
| "stage_of (EvTrain _) = Some TrainingLoop"
| "stage_of EvSaveModel = Some Persistence"
| "stage_of (EvSaveCheckpoint _) = Some Persistence"
| "stage_of (EvTokenizerSavePretrained _) = Some Persistence"
| "stage_of _ = None"

text \<open>The stages a run entered, in the order it entered them.\<close>

definition stages_entered :: "event list \<Rightarrow> stage list" where
  "stages_entered tr = remdups_adj (List.map_filter stage_of tr)"

text \<open>The stages in the order of the pipeline.\<close>

definition pipeline :: "stage list" where
  "pipeline =
     [ArgumentParsing, TokenizerSetup, BaseModelLoading, WrapperConstruction,
      DatasetAndCollator, TrainingLoop, Persistence]"

text \<open>The position of the first call of each stage.\<close>

fun stage_entry :: "stage \<Rightarrow> nat" where
  "stage_entry ArgumentParsing = 0"
| "stage_entry TokenizerSetup = 9"
| "stage_entry BaseModelLoading = 11"
| "stage_entry WrapperConstruction = 14"
| "stage_entry DatasetAndCollator = 16"
| "stage_entry TrainingLoop = 20"
| "stage_entry Persistence = 21"

subsection \<open>Properties of runs\<close>

text \<open>
  The calls of a run are in source order, each at most once, and none is before position
  \<open>k\<close> of the source.
\<close>

definition ordered_from :: "nat \<Rightarrow> 'a run \<Rightarrow> bool" where
  "ordered_from k m \<longleftrightarrow>
     sorted_wrt (<) (map event_rank (fst m)) \<and> (\<forall>e\<in>set (fst m). k \<le> event_rank e)"

text \<open>When a library call raised, that call is the last one the run made.\<close>

definition raised_last :: "'a run \<Rightarrow> bool" where
  "raised_last m \<longleftrightarrow>
     (\<forall>ev x. snd m = Inl (Raised ev x) \<longrightarrow> fst m \<noteq> [] \<and> last (fst m) = ev)"

text \<open>
  The exception that the library call behind an event raises in an environment, if it
  raises. \<^verbatim>\<open>os.path.exists\<close> and the logging calls do not raise.
\<close>

definition exn_of :: "exn + 'a \<Rightarrow> exn option" where
  "exn_of outcome = (case outcome of Inl x \<Rightarrow> Some x | Inr _ \<Rightarrow> None)"

fun raises_in :: "world \<Rightarrow> event \<Rightarrow> exn option" where
  "raises_in w EvParseArgs = exn_of (parse_args_into_dataclasses w)"
| "raises_in w (EvListDir d) = exn_of (listdir w d)"
| "raises_in w (EvSetSeed _) = exn_of (set_seed w)"
| "raises_in w (EvTokenizerFromPretrained n) = exn_of (tokenizer_from_pretrained w n)"
| "raises_in w (EvTokenizerCall t) = exn_of (tokenizer_call w t)"
| "raises_in w (EvGetModel _) = exn_of (get_model w)"
| "raises_in w (EvConfigFromPretrained n) = exn_of (config_from_pretrained w n)"
| "raises_in w (EvBiEncoderModel _) = exn_of (BiEncoderModel_init w)"
| "raises_in w EvEnableInputRequireGrads = exn_of (enable_input_require_grads w)"
| "raises_in w (EvTrainDataset _) = exn_of (TrainDatasetForReranker_init w)"
| "raises_in w (EvRerankCollator _) = exn_of (RerankCollator_init w)"
| "raises_in w EvBiTrainer = exn_of (BiTrainer_init w)"
| "raises_in w (EvMkdir d) = exn_of (mkdir w d)"
| "raises_in w (EvTrain _) = exn_of (train w)"
| "raises_in w EvSaveModel = exn_of (save_model w)"
| "raises_in w (EvSaveCheckpoint _) =
     (case trainer_deepspeed w of None \<Rightarrow> None | Some outcome \<Rightarrow> exn_of outcome)"
| "raises_in w EvIsWorldProcessZero = exn_of (is_world_process_zero w)"
| "raises_in w (EvTokenizerSavePretrained _) = exn_of (save_pretrained w)"
| "raises_in w _ = None"

text \<open>
  A run ends with the exception of a library call exactly when it made that call and the
  call raises in the environment.
\<close>

definition raises_faithfully :: "world \<Rightarrow> 'a run \<Rightarrow> bool" where
  "raises_faithfully w m \<longleftrightarrow>
     (\<forall>ev x. ev \<in> set (fst m) \<and> raises_in w ev = Some x \<longrightarrow> snd m = Inl (Raised ev x))
     \<and> (\<forall>ev x. snd m = Inl (Raised ev x) \<longrightarrow> ev \<in> set (fst m) \<and> raises_in w ev = Some x)"

text \<open>
  Whenever a run made a call after position \<open>k\<close> of the source, it made the call at
  position \<open>k\<close>.
\<close>

definition entered_before :: "nat \<Rightarrow> 'a run \<Rightarrow> bool" where
  "entered_before k m \<longleftrightarrow>
     (\<forall>e\<in>set (fst m). k < event_rank e \<longrightarrow> (\<exists>e'\<in>set (fst m). event_rank e' = k))"

subsection \<open>Example environments\<close>

definition example_model_args :: ModelArguments where
  "example_model_args =
     \<lparr>model_name_or_path = ''base-reranker'', config_name = None,
      tokenizer_name = Some ''reranker-tokenizer'', cache_dir = None, token = None,
      padding_side = ''right'', compress_method = ''mean'',
      start_layer = 4, compress_layers = [4], compress_ratios = [2],
      train_method = ''distill'', use_lora = False\<rparr>"

definition example_data_args :: DataArguments where
  "example_data_args = \<lparr>query_max_len = 32, passage_max_len = 192\<rparr>"

definition example_training_args :: TrainingArguments where
  "example_training_args =
     \<lparr>output_dir = ''out'', do_train = True, overwrite_output_dir = False, local_rank = 0,
      fp16 = False, seed = 42, per_device_train_batch_size = 1,
      gradient_checkpointing = True, resume_from_checkpoint = None\<rparr>"

definition example_tokenizer :: tokenizer where
  "example_tokenizer =
     \<lparr>pad_token_id = None, unk_token_id = Some 0, bos_token_id = Some 1,
      eos_token_id = Some 2, eod_id = Missing, im_start_id = Missing, im_end_id = Missing,
      tok_padding_side = ''left''\<rparr>"

text \<open>A run in which the output directory does not exist yet and every call returns.\<close>

definition example_world :: world where
  "example_world =
     \<lparr>parse_args_into_dataclasses =
        Inr (example_model_args, example_data_args, example_training_args),
      path_exists = (\<lambda>_. False),
      listdir = (\<lambda>_. Inl ''FileNotFoundError''),
      set_seed = Inr (),
      tokenizer_from_pretrained = (\<lambda>_. Inr example_tokenizer),
      tokenizer_call = (\<lambda>_. Inr [7]),
      get_model = Inr \<lparr>num_hidden_layers = 6\<rparr>,
      config_from_pretrained = (\<lambda>_. Inr ()),
      BiEncoderModel_init = Inr (),
      enable_input_require_grads = Inr (),
      TrainDatasetForReranker_init = Inr (),
      RerankCollator_init = Inr (),
      BiTrainer_init = Inr (),
      mkdir = (\<lambda>_. Inr ()),
      train = Inr (),
      save_model = Inr (),
      trainer_deepspeed = Some (Inr ()),
      is_world_process_zero = Inr True,
      save_pretrained = Inr ()\<rparr>"

text \<open>The same run, started in a directory that already holds a checkpoint.\<close>

definition nonempty_dir_world :: world where
  "nonempty_dir_world =
     example_world\<lparr>path_exists := (\<lambda>_. True), listdir := (\<lambda>_. Inr [''checkpoint-500''])\<rparr>"

text \<open>The same run on a process that is not the main one.\<close>

definition worker_world :: world where
  "worker_world =
     example_world\<lparr>parse_args_into_dataclasses :=
         Inr (example_model_args, example_data_args, example_training_args\<lparr>local_rank := 1\<rparr>),
       is_world_process_zero := Inr False\<rparr>"

text \<open>The arguments the wrapper is constructed with in the example run.\<close>

definition example_wrapper_args :: BiEncoderModel_args where
  "example_wrapper_args =
     \<lparr>arg_model = \<lparr>num_hidden_layers = 6\<rparr>,
      arg_tokenizer = example_tokenizer\<lparr>pad_token_id := Some 0, tok_padding_side := ''right''\<rparr>,
      arg_compress_method = ''mean'', arg_train_batch_size = 1,
      cutoff_layers = [4, 5, 6], arg_compress_layers = [4],
      arg_compress_ratios = [2], arg_train_method = ''distill''\<rparr>"

text \<open>The same run with LoRA training.\<close>

definition lora_world :: world where
  "lora_world =
     example_world\<lparr>parse_args_into_dataclasses :=
       Inr (example_model_args\<lparr>use_lora := True\<rparr>, example_data_args,
            example_training_args)\<rparr>"

text \<open>Tokenizers for the three cases of the pad-token fallback.\<close>

definition padded_tokenizer :: tokenizer where
  "padded_tokenizer = example_tokenizer\<lparr>pad_token_id := Some 3\<rparr>"

definition qwen_tokenizer :: tokenizer where
  "qwen_tokenizer =
     \<lparr>pad_token_id = None, unk_token_id = None, bos_token_id = None, eos_token_id = None,
      eod_id = Attr (Some 151643), im_start_id = Attr (Some 151644),
      im_end_id = Attr (Some 151645), tok_padding_side = ''left''\<rparr>"

text \<open>A run over a non-empty output directory with \<^verbatim>\<open>--overwrite_output_dir\<close>.\<close>

definition overwrite_world :: world where
  "overwrite_world =
     nonempty_dir_world\<lparr>parse_args_into_dataclasses :=
       Inr (example_model_args, example_data_args,
            example_training_args\<lparr>overwrite_output_dir := True\<rparr>)\<rparr>"

text \<open>A tokenizer that has both an unknown token and the \<^verbatim>\<open>eod_id\<close> family.\<close>

definition unk_and_eod_tokenizer :: tokenizer where
  "unk_and_eod_tokenizer = qwen_tokenizer\<lparr>unk_token_id := Some 0\<rparr>"

text \<open>A run in which loading the base model fails.\<close>

definition failed_load_world :: world where
  "failed_load_world = example_world\<lparr>get_model := Inl ''OSError''\<rparr>"

text \<open>A run whose trainer has no DeepSpeed engine.\<close>

definition no_engine_world :: world where
  "no_engine_world = example_world\<lparr>trainer_deepspeed := None\<rparr>"

text \<open>
  A run whose output path is a regular file, with \<^verbatim>\<open>--overwrite_output_dir\<close>:
  \<^verbatim>\<open>os.listdir\<close> raises on it.
\<close>

definition file_world :: world where
  "file_world =
     example_world\<lparr>parse_args_into_dataclasses :=
         Inr (example_model_args, example_data_args,
              example_training_args\<lparr>overwrite_output_dir := True\<rparr>),
       path_exists := (\<lambda>_. True),
       listdir := (\<lambda>_. Inl ''NotADirectoryError'')\<rparr>"

section \<open>Facts about runs\<close>

subsection \<open>Trace and result of the combinators\<close>

lemma fst_ret: "fst (ret x) = []"
  by (simp add: ret_def)

lemma snd_ret: "snd (ret x) = Inr x"
  by (simp add: ret_def)

lemma fst_raise: "fst (raise e) = []"
  by (simp add: raise_def)

lemma snd_raise: "snd (raise e) = Inl e"
  by (simp add: raise_def)

lemma fst_call: "fst (call ev out) = [ev]"
  by (simp add: call_def)

lemma snd_call: "snd (call ev out) = (case out of Inl x \<Rightarrow> Inl (Raised ev x) | Inr v \<Rightarrow> Inr v)"
  by (simp add: call_def)

lemma snd_call_Inr: "snd (call ev out) = Inr v \<longleftrightarrow> out = Inr v"
  by (simp add: call_def split: sum.splits)

lemma fst_and_then:
  "fst (and_then m f) = fst m @ (case snd m of Inl e \<Rightarrow> [] | Inr x \<Rightarrow> fst (f x))"
  by (cases m) (simp add: and_then_def split: sum.splits prod.splits)

lemma snd_and_then:
  "snd (and_then m f) = (case snd m of Inl e \<Rightarrow> Inl e | Inr x \<Rightarrow> snd (f x))"
  by (cases m) (simp add: and_then_def split: sum.splits prod.splits)

lemma mem_and_then:
  "e \<in> set (fst (and_then m f)) \<longleftrightarrow>
     e \<in> set (fst m) \<or> (\<exists>x. snd m = Inr x \<and> e \<in> set (fst (f x)))"
  by (auto simp: fst_and_then split: sum.splits)

lemma snd_and_then_Inr:
  "snd (and_then m f) = Inr y \<longleftrightarrow> (\<exists>x. snd m = Inr x \<and> snd (f x) = Inr y)"
  by (auto simp: snd_and_then split: sum.splits)

lemma snd_and_then_Inl:
  "snd (and_then m f) = Inl e \<longleftrightarrow> snd m = Inl e \<or> (\<exists>x. snd m = Inr x \<and> snd (f x) = Inl e)"
  by (auto simp: snd_and_then split: sum.splits)

lemma fst_setup_tokenizer: "fst (setup_tokenizer ma tok) = []"
  by (simp add: setup_tokenizer_def pad_token_fallback_def getattr_def fst_and_then fst_ret
      fst_raise snd_ret snd_raise split: attr.splits sum.splits)

lemma fst_last_item: "fst (last_item ids) = []"
  by (simp add: last_item_def fst_ret fst_raise)

lemma fst_check_output_dir:
  "fst (check_output_dir w ta) =
     (if path_exists w (output_dir ta)
      then [EvPathExists (output_dir ta), EvListDir (output_dir ta)]
      else [EvPathExists (output_dir ta)])"
  by (simp add: check_output_dir_def fst_and_then fst_call snd_call fst_ret fst_raise
      split: sum.splits)

lemma fst_save_final_checkpoint:
  "fst (save_final_checkpoint w ma ta) =
     (if \<not> use_lora ma \<and> trainer_deepspeed w \<noteq> None
      then [EvSaveCheckpoint (os_path_join (output_dir ta) ''checkpoint-final'')]
      else [])"
  by (simp add: save_final_checkpoint_def fst_call fst_raise fst_ret split: option.splits)

lemma snd_save_final_checkpoint_Inr:
  "snd (save_final_checkpoint w ma ta) = Inr u \<longleftrightarrow>
     use_lora ma \<or> trainer_deepspeed w = Some (Inr ())"
  by (auto simp add: save_final_checkpoint_def snd_call snd_raise snd_ret
      split: option.splits sum.splits)

lemmas mem_simps = mem_and_then fst_call snd_call_Inr fst_setup_tokenizer fst_last_item
  fst_check_output_dir fst_save_final_checkpoint snd_save_final_checkpoint_Inr fst_ret snd_ret

lemmas main_mem_simps = main_def mem_simps setup_logging_def train_and_save_def

subsection \<open>Source order\<close>

lemma ret_then: "and_then (ret x) f = f x"
  by (cases "f x") (simp add: and_then_def ret_def)

lemma ordered_from_ret: "ordered_from k (ret x)"
  by (simp add: ordered_from_def fst_ret)

lemma ordered_from_call: "k \<le> event_rank ev \<Longrightarrow> ordered_from k (call ev out)"
  by (simp add: ordered_from_def fst_call)

lemma ordered_from_if:
  "ordered_from k a \<Longrightarrow> ordered_from k b \<Longrightarrow> ordered_from k (if c then a else b)"
  by simp

lemma ordered_from_case_prod:
  "(\<And>a b. ordered_from k (f a b)) \<Longrightarrow> ordered_from k (case x of (a, b) \<Rightarrow> f a b)"
  by (cases x) simp

lemma ordered_from_and_then:
  assumes m: "ordered_from k m"
      and below: "\<forall>e\<in>set (fst m). event_rank e < k'"
      and le: "k \<le> k'"
      and rest: "\<And>v. ordered_from k' (f v)"
  shows "ordered_from k (and_then m f)"
proof (cases "snd m")
  case (Inl e)
  with m show ?thesis
    by (simp add: ordered_from_def fst_and_then)
next
  case (Inr v)
  from rest[of v] have tail: "sorted_wrt (<) (map event_rank (fst (f v)))"
    "\<forall>e\<in>set (fst (f v)). k' \<le> event_rank e"
    by (simp_all add: ordered_from_def)
  have cross: "\<forall>a\<in>set (fst m). \<forall>b\<in>set (fst (f v)). event_rank a < event_rank b"
    using below tail(2) by (meson less_le_trans)
  have low: "\<forall>e\<in>set (fst (f v)). k \<le> event_rank e"
    using le tail(2) by (meson order_trans)
  show ?thesis
    using m tail(1) cross low Inr
    by (auto simp: ordered_from_def fst_and_then sorted_wrt_append)
qed

lemma ordered_call_then:
  "k \<le> event_rank ev \<Longrightarrow> (\<And>v. ordered_from (Suc (event_rank ev)) (f v))
     \<Longrightarrow> ordered_from k (and_then (call ev out) f)"
  by (rule ordered_from_and_then[where k' = "Suc (event_rank ev)"])
     (simp_all add: ordered_from_call fst_call)

lemma ordered_cond_call_then:
  "k \<le> event_rank ev \<Longrightarrow> (\<And>v. ordered_from (Suc (event_rank ev)) (f v))
     \<Longrightarrow> ordered_from k (and_then (if c then call ev out else ret u) f)"
  by (rule ordered_from_and_then[where k' = "Suc (event_rank ev)"])
     (simp_all add: ordered_from_call ordered_from_ret fst_call fst_ret)

lemma ordered_setup_tokenizer_then:
  "(\<And>v. ordered_from k (f v)) \<Longrightarrow> ordered_from k (and_then (setup_tokenizer ma tok) f)"
  by (rule ordered_from_and_then[where k' = k])
     (simp_all add: ordered_from_def fst_setup_tokenizer)

lemma ordered_last_item_then:
  "(\<And>v. ordered_from k (f v)) \<Longrightarrow> ordered_from k (and_then (last_item ids) f)"
  by (rule ordered_from_and_then[where k' = k])
     (simp_all add: ordered_from_def fst_last_item)

lemma ordered_check_output_dir_then:
  "k \<le> 1 \<Longrightarrow> (\<And>v. ordered_from 3 (f v)) \<Longrightarrow>
     ordered_from k (and_then (check_output_dir w ta) f)"
  by (rule ordered_from_and_then[where k' = 3])
     (simp_all add: ordered_from_def fst_check_output_dir)

lemma ordered_setup_logging_then:
  "k \<le> 3 \<Longrightarrow> (\<And>v. ordered_from 8 (f v)) \<Longrightarrow>
     ordered_from k (and_then (setup_logging ta) f)"
  by (rule ordered_from_and_then[where k' = 8])
     (simp_all add: ordered_from_def setup_logging_def)

lemma ordered_save_final_checkpoint_then:
  "k \<le> 22 \<Longrightarrow> (\<And>v. ordered_from 23 (f v)) \<Longrightarrow>
     ordered_from k (and_then (save_final_checkpoint w ma ta) f)"
  by (rule ordered_from_and_then[where k' = 23])
     (simp_all add: ordered_from_def fst_save_final_checkpoint)

lemmas ordered_intros = ordered_call_then ordered_cond_call_then ordered_setup_tokenizer_then
  ordered_last_item_then ordered_check_output_dir_then ordered_setup_logging_then
  ordered_save_final_checkpoint_then
  ordered_from_case_prod ordered_from_if ordered_from_call ordered_from_ret

lemma ordered_main: "ordered_from 0 (main w)"
  unfolding main_def train_and_save_def
  by (intro ordered_intros) simp_all

subsection \<open>A raising call ends the run\<close>

lemma raised_last_ret: "raised_last (ret x)"
  by (simp add: raised_last_def snd_ret)

lemma raised_last_call: "raised_last (call ev out)"
  by (auto simp add: raised_last_def snd_call fst_call split: sum.splits)

lemma raised_last_and_then:
  "raised_last m \<Longrightarrow> (\<And>x. snd m = Inr x \<Longrightarrow> raised_last (f x)) \<Longrightarrow>
     raised_last (and_then m f)"
  by (cases "snd m") (auto simp: raised_last_def fst_and_then snd_and_then)

lemma raised_last_if: "raised_last a \<Longrightarrow> raised_last b \<Longrightarrow> raised_last (if c then a else b)"
  by simp

lemma raised_last_silent: "(\<And>ev x. snd m \<noteq> Inl (Raised ev x)) \<Longrightarrow> raised_last m"
  by (simp add: raised_last_def)

lemma raised_last_check_output_dir: "raised_last (check_output_dir w ta)"
  unfolding check_output_dir_def
  by (intro raised_last_and_then raised_last_call raised_last_if raised_last_ret raised_last_silent)
     (simp add: snd_raise)

lemma raised_last_setup_tokenizer: "raised_last (setup_tokenizer ma tok)"
  by (rule raised_last_silent)
     (simp add: setup_tokenizer_def pad_token_fallback_def getattr_def snd_and_then snd_ret
        snd_raise split: attr.splits sum.splits)

lemma raised_last_case_prod:
  "(\<And>a b. raised_last (f a b)) \<Longrightarrow> raised_last (case x of (a, b) \<Rightarrow> f a b)"
  by (cases x) simp

lemma raised_last_setup_logging: "raised_last (setup_logging ta)"
  by (rule raised_last_silent) (simp add: setup_logging_def)

lemma raised_last_last_item: "raised_last (last_item ids)"
  by (rule raised_last_silent) (simp add: last_item_def snd_raise snd_ret)

lemma raised_last_save_final_checkpoint: "raised_last (save_final_checkpoint w ma ta)"
  by (auto simp add: save_final_checkpoint_def raised_last_def snd_call fst_call snd_raise
      snd_ret split: option.splits sum.splits)

lemma raised_last_main: "raised_last (main w)"
  unfolding main_def train_and_save_def
  by (intro raised_last_and_then raised_last_call raised_last_if raised_last_ret
      raised_last_check_output_dir raised_last_setup_tokenizer raised_last_case_prod
      raised_last_setup_logging raised_last_last_item raised_last_save_final_checkpoint)

subsection \<open>The range of layers\<close>

lemma py_range_upto: "py_range i stop = [i..stop - 1]"
proof (induction i stop rule: py_range.induct)
  case (1 i stop)
  show ?case
  proof (cases "i < stop")
    case True
    then have "[i..stop - 1] = i # [i + 1..stop - 1]"
      by (simp add: upto_rec1)
    with True "1.IH" show ?thesis
      by (simp add: py_range.simps[of i stop])
  next
    case False
    then show ?thesis
      by (simp add: py_range.simps[of i stop])
  qed
qed

subsection \<open>The example run\<close>

lemmas example_defs = example_world_def example_model_args_def example_data_args_def
  example_training_args_def example_tokenizer_def

lemmas eval_simps = fst_and_then snd_and_then fst_call snd_call fst_ret snd_ret fst_raise
  snd_raise check_output_dir_def setup_logging_def setup_tokenizer_def pad_token_fallback_def
  getattr_def last_item_def train_and_save_def save_final_checkpoint_def if_else_def
  os_path_join_def py_range_upto

lemma trace_example_world:
  "fst (main example_world) =
    [EvParseArgs, EvPathExists ''out'', EvLoggingBasicConfig INFO,
     EvLoggerWarning 0 True False,
     EvLoggerInfo ''Training/evaluation parameters %s'',
     EvLoggerInfo ''Model parameters %s'',
     EvLoggerInfo ''Data parameters %s'', EvSetSeed 42,
     EvTokenizerFromPretrained ''reranker-tokenizer'', EvTokenizerCall ''Yes'',
     EvGetModel 7, EvConfigFromPretrained ''base-reranker'', EvLoggerInfo ''Config: %s'',
     EvBiEncoderModel example_wrapper_args,
     EvEnableInputRequireGrads,
     EvTrainDataset (arg_tokenizer example_wrapper_args),
     EvRerankCollator
      \<lparr>col_tokenizer = arg_tokenizer example_wrapper_args,
       col_query_max_len = 32, col_passage_max_len = 192,
       pad_to_multiple_of = 8, return_tensors = ''pt'', padding = True\<rparr>,
     EvBiTrainer, EvMkdir ''out'', EvTrain None, EvSaveModel,
     EvSaveCheckpoint ''out/checkpoint-final'', EvIsWorldProcessZero,
     EvTokenizerSavePretrained ''out'']"
  by (simp add: main_def eval_simps example_defs example_wrapper_args_def)

lemma result_example_world: "snd (main example_world) = Inr ()"
  by (simp add: main_def eval_simps example_defs)

lemma parse_example_world:
  "parse_args_into_dataclasses example_world =
     Inr (example_model_args, example_data_args, example_training_args)"
  by (simp add: example_world_def)

section \<open>The claims\<close>

subsection \<open>C3: the layer subsets passed to the wrapper\<close>

text \<open>
  Claim C3. In every run that constructs the bi-encoder wrapper, with the parsed model
  arguments and the base model that \<^verbatim>\<open>get_model\<close> returned, the \<^verbatim>\<open>cutoff_layers\<close> argument
  of \<^verbatim>\<open>BiEncoderModel\<close> is the ascending list of every integer from \<^verbatim>\<open>start_layer\<close> to
  \<^verbatim>\<open>num_hidden_layers\<close> inclusive: it is strictly increasing, its elements are exactly the
  integers of that interval, and it is empty when \<^verbatim>\<open>start_layer\<close> exceeds
  \<^verbatim>\<open>num_hidden_layers\<close>.
\<close>

theorem cutoff_layers_exhaustive_contiguous:
  assumes "parse_args_into_dataclasses w = Inr (model_args, data_args, training_args)"
      and "get_model w = Inr base"
      and "EvBiEncoderModel args \<in> set (fst (main w))"
  shows "cutoff_layers args = [start_layer model_args..num_hidden_layers base]
         \<and> sorted_wrt (<) (cutoff_layers args)
         \<and> set (cutoff_layers args) = {start_layer model_args..num_hidden_layers base}
         \<and> (num_hidden_layers base < start_layer model_args \<longrightarrow> cutoff_layers args = [])"
proof -
  from assms have "cutoff_layers args =
      py_range (start_layer model_args) (num_hidden_layers base + 1)"
    by (auto simp add: main_mem_simps split: if_splits)
  then have eq: "cutoff_layers args = [start_layer model_args..num_hidden_layers base]"
    by (simp add: py_range_upto)
  show ?thesis
    unfolding eq by simp
qed

theorem cutoff_layers_exhaustive_contiguous_witness:
  "parse_args_into_dataclasses example_world =
      Inr (example_model_args, example_data_args, example_training_args)
   \<and> get_model example_world = Inr \<lparr>num_hidden_layers = 6\<rparr>
   \<and> EvBiEncoderModel example_wrapper_args \<in> set (fst (main example_world))
   \<and> cutoff_layers example_wrapper_args = [4, 5, 6]"
proof -
  have g: "get_model example_world = Inr \<lparr>num_hidden_layers = 6\<rparr>"
    by (simp add: example_world_def)
  have m: "EvBiEncoderModel example_wrapper_args \<in> set (fst (main example_world))"
    by (simp add: trace_example_world)
  show ?thesis
    using parse_example_world g m
      cutoff_layers_exhaustive_contiguous[OF parse_example_world g m]
    by (simp add: example_model_args_def)
qed

subsection \<open>C8: where the tokenizer and the config are loaded from\<close>

text \<open>
  Claim C8. In every run, the tokenizer is loaded from \<^verbatim>\<open>model_args.tokenizer_name\<close> when
  that is set (not \<^verbatim>\<open>None\<close> and not empty) and from \<^verbatim>\<open>model_args.model_name_or_path\<close>
  otherwise; the model config is loaded from \<^verbatim>\<open>model_args.config_name\<close> when that is set
  and from \<^verbatim>\<open>model_args.model_name_or_path\<close> otherwise. A run that ends without an
  exception has made both loads.
\<close>

theorem name_resolution_precedence:
  assumes "parse_args_into_dataclasses w = Inr (model_args, data_args, training_args)"
  shows "(\<forall>n. EvTokenizerFromPretrained n \<in> set (fst (main w)) \<longrightarrow>
            n = (case tokenizer_name model_args of
                   None \<Rightarrow> model_name_or_path model_args
                 | Some s \<Rightarrow> if s \<noteq> [] then s else model_name_or_path model_args))
       \<and> (\<forall>n. EvConfigFromPretrained n \<in> set (fst (main w)) \<longrightarrow>
            n = (case config_name model_args of
                   None \<Rightarrow> model_name_or_path model_args
                 | Some s \<Rightarrow> if s \<noteq> [] then s else model_name_or_path model_args))
       \<and> (snd (main w) = Inr () \<longrightarrow>
            (\<exists>n. EvTokenizerFromPretrained n \<in> set (fst (main w)))
            \<and> (\<exists>n. EvConfigFromPretrained n \<in> set (fst (main w))))"
proof (intro conjI allI impI)
  fix n assume "EvTokenizerFromPretrained n \<in> set (fst (main w))"
  with assms have "n = if_else (tokenizer_name model_args) (model_name_or_path model_args)"
    by (auto simp add: main_mem_simps split: if_splits)
  then show "n = (case tokenizer_name model_args of
                   None \<Rightarrow> model_name_or_path model_args
                 | Some s \<Rightarrow> if s \<noteq> [] then s else model_name_or_path model_args)"
    by (simp add: if_else_def)
next
  fix n assume "EvConfigFromPretrained n \<in> set (fst (main w))"
  with assms have "n = if_else (config_name model_args) (model_name_or_path model_args)"
    by (auto simp add: main_mem_simps split: if_splits)
  then show "n = (case config_name model_args of
                   None \<Rightarrow> model_name_or_path model_args
                 | Some s \<Rightarrow> if s \<noteq> [] then s else model_name_or_path model_args)"
    by (simp add: if_else_def)
next
  assume "snd (main w) = Inr ()"
  with assms show "\<exists>n. EvTokenizerFromPretrained n \<in> set (fst (main w))"
    by (auto simp add: main_def snd_and_then_Inr snd_call_Inr mem_simps)
next
  assume "snd (main w) = Inr ()"
  with assms show "\<exists>n. EvConfigFromPretrained n \<in> set (fst (main w))"
    by (auto simp add: main_def snd_and_then_Inr snd_call_Inr mem_simps)
qed

theorem name_resolution_precedence_witness:
  "parse_args_into_dataclasses example_world =
      Inr (example_model_args, example_data_args, example_training_args)
   \<and> tokenizer_name example_model_args = Some ''reranker-tokenizer''
   \<and> config_name example_model_args = None
   \<and> model_name_or_path example_model_args = ''base-reranker''
   \<and> EvTokenizerFromPretrained ''reranker-tokenizer'' \<in> set (fst (main example_world))
   \<and> EvTokenizerFromPretrained ''base-reranker'' \<notin> set (fst (main example_world))
   \<and> EvConfigFromPretrained ''base-reranker'' \<in> set (fst (main example_world))"
  using name_resolution_precedence[OF parse_example_world] parse_example_world
  by (simp add: trace_example_world example_model_args_def)

subsection \<open>C5: the final checkpoint\<close>

text \<open>A run with LoRA training, and what the library calls of the example runs return.\<close>

lemma trace_lora_world:
  "fst (main lora_world) =
    [EvParseArgs, EvPathExists ''out'', EvLoggingBasicConfig INFO,
     EvLoggerWarning 0 True False,
     EvLoggerInfo ''Training/evaluation parameters %s'',
     EvLoggerInfo ''Model parameters %s'',
     EvLoggerInfo ''Data parameters %s'', EvSetSeed 42,
     EvTokenizerFromPretrained ''reranker-tokenizer'', EvTokenizerCall ''Yes'',
     EvGetModel 7, EvConfigFromPretrained ''base-reranker'', EvLoggerInfo ''Config: %s'',
     EvBiEncoderModel example_wrapper_args,
     EvEnableInputRequireGrads,
     EvTrainDataset (arg_tokenizer example_wrapper_args),
     EvRerankCollator
      \<lparr>col_tokenizer = arg_tokenizer example_wrapper_args,
       col_query_max_len = 32, col_passage_max_len = 192,
       pad_to_multiple_of = 8, return_tensors = ''pt'', padding = True\<rparr>,
     EvBiTrainer, EvMkdir ''out'', EvTrain None, EvSaveModel, EvIsWorldProcessZero,
     EvTokenizerSavePretrained ''out'']"
  by (simp add: main_def eval_simps example_defs example_wrapper_args_def lora_world_def)

lemma oracles_lora_world:
  "parse_args_into_dataclasses lora_world =
      Inr (example_model_args\<lparr>use_lora := True\<rparr>, example_data_args, example_training_args)"
  "save_model lora_world = Inr ()"
  by (simp_all add: lora_world_def example_world_def)

lemma oracles_example_world:
  "train example_world = Inr ()"
  "save_model example_world = Inr ()"
  "trainer_deepspeed example_world = Some (Inr ())"
  "is_world_process_zero example_world = Inr True"
  by (simp_all add: example_world_def)

lemma trace_no_engine_world:
  "fst (main no_engine_world) =
    [EvParseArgs, EvPathExists ''out'', EvLoggingBasicConfig INFO,
     EvLoggerWarning 0 True False,
     EvLoggerInfo ''Training/evaluation parameters %s'',
     EvLoggerInfo ''Model parameters %s'',
     EvLoggerInfo ''Data parameters %s'', EvSetSeed 42,
     EvTokenizerFromPretrained ''reranker-tokenizer'', EvTokenizerCall ''Yes'',
     EvGetModel 7, EvConfigFromPretrained ''base-reranker'', EvLoggerInfo ''Config: %s'',
     EvBiEncoderModel example_wrapper_args,
     EvEnableInputRequireGrads,
     EvTrainDataset (arg_tokenizer example_wrapper_args),
     EvRerankCollator
      \<lparr>col_tokenizer = arg_tokenizer example_wrapper_args,
       col_query_max_len = 32, col_passage_max_len = 192,
       pad_to_multiple_of = 8, return_tensors = ''pt'', padding = True\<rparr>,
     EvBiTrainer, EvMkdir ''out'', EvTrain None, EvSaveModel]"
  by (simp add: main_def eval_simps example_defs example_wrapper_args_def no_engine_world_def)

lemma result_no_engine_world:
  "snd (main no_engine_world) = Inl (AttributeError ''save_checkpoint'')"
  by (simp add: main_def eval_simps example_defs no_engine_world_def)

lemma oracles_no_engine_world:
  "parse_args_into_dataclasses no_engine_world =
      Inr (example_model_args, example_data_args, example_training_args)"
  "train no_engine_world = Inr ()"
  "save_model no_engine_world = Inr ()"
  "trainer_deepspeed no_engine_world = None"
  by (simp_all add: no_engine_world_def example_world_def)

text \<open>
  Claim C5, as stated, fails: in a run whose trainer has no DeepSpeed engine
  (\<^verbatim>\<open>trainer.deepspeed\<close> is \<^verbatim>\<open>None\<close>), with \<^verbatim>\<open>use_lora\<close> false, training and
  \<^verbatim>\<open>trainer.save_model\<close> return, and then line 128 raises \<^verbatim>\<open>AttributeError\<close>:
  \<^verbatim>\<open>save_checkpoint\<close> is never called and no final checkpoint is written.
\<close>

theorem final_checkpoint_missing_without_engine:
  "parse_args_into_dataclasses no_engine_world =
      Inr (example_model_args, example_data_args, example_training_args)
   \<and> \<not> use_lora example_model_args
   \<and> trainer_deepspeed no_engine_world = None
   \<and> EvTrain None \<in> set (fst (main no_engine_world))
   \<and> train no_engine_world = Inr ()
   \<and> EvSaveModel \<in> set (fst (main no_engine_world))
   \<and> save_model no_engine_world = Inr ()
   \<and> EvSaveCheckpoint ''out/checkpoint-final'' \<notin> set (fst (main no_engine_world))
   \<and> last (fst (main no_engine_world)) = EvSaveModel
   \<and> snd (main no_engine_world) = Inl (AttributeError ''save_checkpoint'')"
  by (simp add: trace_no_engine_world result_no_engine_world oracles_no_engine_world
      example_model_args_def)

text \<open>
  Claim C5, amended. In a run whose trainer has a DeepSpeed engine (\<^verbatim>\<open>trainer.deepspeed\<close>
  is not \<^verbatim>\<open>None\<close>), once training and \<^verbatim>\<open>trainer.save_model\<close> have returned, the driver
  calls \<^verbatim>\<open>trainer.deepspeed.save_checkpoint\<close> on
  \<^verbatim>\<open>os.path.join(output_dir, "checkpoint-final")\<close> exactly when \<^verbatim>\<open>model_args.use_lora\<close> is
  false. In every run, with \<^verbatim>\<open>use_lora\<close> true that call is never made, and a run that makes
  it has \<^verbatim>\<open>use_lora\<close> false, passes that path, and has trained and saved the model before.
\<close>

theorem final_checkpoint_iff_not_lora_with_engine:
  assumes "parse_args_into_dataclasses w = Inr (model_args, data_args, training_args)"
  shows "(use_lora model_args \<longrightarrow> (\<forall>p. EvSaveCheckpoint p \<notin> set (fst (main w))))
       \<and> (\<forall>p. EvSaveCheckpoint p \<in> set (fst (main w)) \<longrightarrow>
             \<not> use_lora model_args
             \<and> p = os_path_join (output_dir training_args) ''checkpoint-final''
             \<and> EvTrain (resume_from_checkpoint training_args) \<in> set (fst (main w))
             \<and> train w = Inr ()
             \<and> EvSaveModel \<in> set (fst (main w)) \<and> save_model w = Inr ())
       \<and> (EvSaveModel \<in> set (fst (main w)) \<and> save_model w = Inr ()
             \<and> trainer_deepspeed w \<noteq> None \<longrightarrow>
           (EvSaveCheckpoint (os_path_join (output_dir training_args) ''checkpoint-final'')
              \<in> set (fst (main w))
            \<longleftrightarrow> \<not> use_lora model_args))
       \<and> (output_dir training_args \<noteq> [] \<and> last (output_dir training_args) \<noteq> CHR ''/'' \<longrightarrow>
           os_path_join (output_dir training_args) ''checkpoint-final'' =
             output_dir training_args @ ''/checkpoint-final'')"
proof -
  have a: "\<not> use_lora model_args
             \<and> p = os_path_join (output_dir training_args) ''checkpoint-final''
             \<and> EvTrain (resume_from_checkpoint training_args) \<in> set (fst (main w))
             \<and> train w = Inr ()
             \<and> EvSaveModel \<in> set (fst (main w)) \<and> save_model w = Inr ()"
    if "EvSaveCheckpoint p \<in> set (fst (main w))" for p
    using that assms
    by (auto simp add: main_mem_simps split: if_splits)
  have b: "EvSaveCheckpoint (os_path_join (output_dir training_args) ''checkpoint-final'')
             \<in> set (fst (main w))"
    if "EvSaveModel \<in> set (fst (main w))" "save_model w = Inr ()"
      "trainer_deepspeed w \<noteq> None" "\<not> use_lora model_args"
    using that assms
    by (auto simp add: main_mem_simps split: if_splits)
  have c: "os_path_join d ''checkpoint-final'' = d @ ''/checkpoint-final''"
    if "d \<noteq> []" "last d \<noteq> CHR ''/''" for d
    using that by (simp add: os_path_join_def)
  from a b c show ?thesis
    by blast
qed

theorem final_checkpoint_iff_not_lora_with_engine_witness:
  "parse_args_into_dataclasses example_world =
      Inr (example_model_args, example_data_args, example_training_args)
   \<and> \<not> use_lora example_model_args
   \<and> trainer_deepspeed example_world = Some (Inr ())
   \<and> EvSaveModel \<in> set (fst (main example_world)) \<and> save_model example_world = Inr ()
   \<and> EvSaveCheckpoint ''out/checkpoint-final'' \<in> set (fst (main example_world))
   \<and> parse_args_into_dataclasses lora_world =
      Inr (example_model_args\<lparr>use_lora := True\<rparr>, example_data_args, example_training_args)
   \<and> use_lora (example_model_args\<lparr>use_lora := True\<rparr>)
   \<and> EvSaveModel \<in> set (fst (main lora_world)) \<and> save_model lora_world = Inr ()
   \<and> EvSaveCheckpoint ''out/checkpoint-final'' \<notin> set (fst (main lora_world))"
proof -
  have n: "\<not> use_lora example_model_args" "use_lora (example_model_args\<lparr>use_lora := True\<rparr>)"
    by (simp_all add: example_model_args_def)
  have m: "EvSaveModel \<in> set (fst (main example_world))"
    "EvSaveModel \<in> set (fst (main lora_world))"
    by (simp_all add: trace_example_world trace_lora_world)
  have o: "output_dir example_training_args = ''out''"
    by (simp add: example_training_args_def)
  have j: "os_path_join ''out'' ''checkpoint-final'' = ''out/checkpoint-final''"
    by (simp add: os_path_join_def)
  have e: "trainer_deepspeed example_world \<noteq> None"
    by (simp add: oracles_example_world)
  from final_checkpoint_iff_not_lora_with_engine[OF parse_example_world] m(1)
    oracles_example_world(2) e n(1)
  have a: "EvSaveCheckpoint ''out/checkpoint-final'' \<in> set (fst (main example_world))"
    unfolding o j by blast
  from final_checkpoint_iff_not_lora_with_engine[OF oracles_lora_world(1)] n(2)
  have b: "EvSaveCheckpoint ''out/checkpoint-final'' \<notin> set (fst (main lora_world))"
    by blast
  from a b n m parse_example_world oracles_lora_world oracles_example_world(2,3)
  show ?thesis
    by blast
qed

subsection \<open>C2: what is saved after training\<close>

text \<open>A run on a process that is not the main one.\<close>

lemma trace_worker_world:
  "fst (main worker_world) =
    [EvParseArgs, EvPathExists ''out'', EvLoggingBasicConfig WARN,
     EvLoggerWarning 1 True False,
     EvLoggerInfo ''Training/evaluation parameters %s'',
     EvLoggerInfo ''Model parameters %s'',
     EvLoggerInfo ''Data parameters %s'', EvSetSeed 42,
     EvTokenizerFromPretrained ''reranker-tokenizer'', EvTokenizerCall ''Yes'',
     EvGetModel 7, EvConfigFromPretrained ''base-reranker'', EvLoggerInfo ''Config: %s'',
     EvBiEncoderModel example_wrapper_args,
     EvEnableInputRequireGrads,
     EvTrainDataset (arg_tokenizer example_wrapper_args),
     EvRerankCollator
      \<lparr>col_tokenizer = arg_tokenizer example_wrapper_args,
       col_query_max_len = 32, col_passage_max_len = 192,
       pad_to_multiple_of = 8, return_tensors = ''pt'', padding = True\<rparr>,
     EvBiTrainer, EvMkdir ''out'', EvTrain None, EvSaveModel,
     EvSaveCheckpoint ''out/checkpoint-final'', EvIsWorldProcessZero]"
  by (simp add: main_def eval_simps example_defs example_wrapper_args_def worker_world_def)

lemma result_worker_world: "snd (main worker_world) = Inr ()"
  by (simp add: main_def eval_simps example_defs worker_world_def)

lemma oracles_worker_world:
  "parse_args_into_dataclasses worker_world =
      Inr (example_model_args, example_data_args,
           example_training_args\<lparr>local_rank := 1\<rparr>)"
  "train worker_world = Inr ()"
  by (simp_all add: worker_world_def example_world_def)

text \<open>
  Claim C2, as stated, fails: on a process for which \<^verbatim>\<open>trainer.is_world_process_zero()\<close> is
  false, training completes, the model is saved, the run ends without an exception, and
  \<^verbatim>\<open>tokenizer.save_pretrained\<close> is never called.
\<close>

theorem tokenizer_not_saved_on_worker:
  "parse_args_into_dataclasses worker_world =
      Inr (example_model_args, example_data_args,
           example_training_args\<lparr>local_rank := 1\<rparr>)
   \<and> output_dir (example_training_args\<lparr>local_rank := 1\<rparr>) = ''out''
   \<and> train worker_world = Inr ()
   \<and> EvTrain None \<in> set (fst (main worker_world))
   \<and> snd (main worker_world) = Inr ()
   \<and> EvSaveModel \<in> set (fst (main worker_world))
   \<and> EvTokenizerSavePretrained ''out'' \<notin> set (fst (main worker_world))"
  by (simp add: trace_worker_world result_worker_world oracles_worker_world
      example_training_args_def)

text \<open>
  Claim C2, amended. In every run in which training completes without error, the driver
  then calls \<^verbatim>\<open>trainer.save_model\<close>; when \<^verbatim>\<open>save_model\<close> and (unless \<^verbatim>\<open>use_lora\<close>) the
  final checkpoint have returned as well, \<^verbatim>\<open>tokenizer.save_pretrained\<close> is called on
  \<^verbatim>\<open>training_args.output_dir\<close> exactly when \<^verbatim>\<open>trainer.is_world_process_zero()\<close> returns
  true; and no run saves the tokenizer anywhere else or on another process.
\<close>

theorem tokenizer_saved_on_main_process_only:
  assumes "parse_args_into_dataclasses w = Inr (model_args, data_args, training_args)"
      and "EvTrain r \<in> set (fst (main w))"
      and "train w = Inr ()"
  shows "EvSaveModel \<in> set (fst (main w))
       \<and> (save_model w = Inr ()
            \<and> (use_lora model_args \<or> trainer_deepspeed w = Some (Inr ())) \<longrightarrow>
          (EvTokenizerSavePretrained (output_dir training_args) \<in> set (fst (main w))
             \<longleftrightarrow> is_world_process_zero w = Inr True))
       \<and> (\<forall>d. EvTokenizerSavePretrained d \<in> set (fst (main w)) \<longrightarrow>
             d = output_dir training_args \<and> is_world_process_zero w = Inr True)"
proof (intro conjI allI impI)
  from assms show "EvSaveModel \<in> set (fst (main w))"
    by (auto simp add: main_mem_simps split: if_splits)
next
  assume "save_model w = Inr ()
    \<and> (use_lora model_args \<or> trainer_deepspeed w = Some (Inr ()))"
  with assms show "EvTokenizerSavePretrained (output_dir training_args) \<in> set (fst (main w))
             \<longleftrightarrow> is_world_process_zero w = Inr True"
    by (auto simp add: main_mem_simps ret_then split: if_splits)
next
  fix d assume "EvTokenizerSavePretrained d \<in> set (fst (main w))"
  with assms show "d = output_dir training_args"
    by (auto simp add: main_mem_simps split: if_splits)
next
  fix d assume "EvTokenizerSavePretrained d \<in> set (fst (main w))"
  with assms show "is_world_process_zero w = Inr True"
    by (auto simp add: main_mem_simps split: if_splits)
qed

theorem tokenizer_saved_on_main_process_only_witness:
  "parse_args_into_dataclasses example_world =
      Inr (example_model_args, example_data_args, example_training_args)
   \<and> EvTrain None \<in> set (fst (main example_world))
   \<and> train example_world = Inr ()
   \<and> EvSaveModel \<in> set (fst (main example_world))
   \<and> save_model example_world = Inr ()
   \<and> trainer_deepspeed example_world = Some (Inr ())
   \<and> is_world_process_zero example_world = Inr True
   \<and> EvTokenizerSavePretrained ''out'' \<in> set (fst (main example_world))"
proof -
  have t: "EvTrain None \<in> set (fst (main example_world))"
    by (simp add: trace_example_world)
  have m: "EvSaveModel \<in> set (fst (main example_world))"
    by (simp add: trace_example_world)
  have o: "output_dir example_training_args = ''out''"
    by (simp add: example_training_args_def)
  from tokenizer_saved_on_main_process_only[OF parse_example_world t oracles_example_world(1)]
    oracles_example_world
  have "EvTokenizerSavePretrained ''out'' \<in> set (fst (main example_world))"
    unfolding o by blast
  with t m parse_example_world oracles_example_world show ?thesis
    by blast
qed

subsection \<open>C1: the output directory check\<close>

lemma snd_check_output_dir:
  "snd (check_output_dir w ta) =
     (if path_exists w (output_dir ta) then
        (case listdir w (output_dir ta) of
           Inl x \<Rightarrow> Inl (Raised (EvListDir (output_dir ta)) x)
         | Inr entries \<Rightarrow>
             if entries \<noteq> [] \<and> do_train ta \<and> \<not> overwrite_output_dir ta
             then Inl (ValueError (output_dir_message (output_dir ta)))
             else Inr ())
      else Inr ())"
  by (simp add: check_output_dir_def snd_and_then snd_call snd_ret snd_raise split: sum.splits)

lemma snd_call_ValueError: "snd (call ev out) \<noteq> Inl (ValueError msg)"
  by (simp add: snd_call split: sum.splits)

lemma snd_setup_tokenizer_ValueError: "snd (setup_tokenizer ma tok) \<noteq> Inl (ValueError msg)"
  by (simp add: setup_tokenizer_def pad_token_fallback_def getattr_def snd_and_then snd_ret
      snd_raise split: attr.splits sum.splits)

lemma snd_last_item_ValueError: "snd (last_item ids) \<noteq> Inl (ValueError msg)"
  by (simp add: last_item_def snd_ret snd_raise)

lemma snd_setup_logging: "snd (setup_logging ta) = Inr ()"
  by (simp add: setup_logging_def)

lemma snd_save_final_checkpoint_ValueError:
  "snd (save_final_checkpoint w ma ta) \<noteq> Inl (ValueError msg)"
  by (simp add: save_final_checkpoint_def snd_call_ValueError snd_raise snd_ret
      split: option.splits)

lemma snd_train_and_save_ValueError: "snd (train_and_save w ma ta) \<noteq> Inl (ValueError msg)"
  by (simp add: train_and_save_def snd_and_then_Inl snd_call_ValueError
      snd_save_final_checkpoint_ValueError snd_ret)

lemma main_ValueError:
  assumes "parse_args_into_dataclasses w = Inr (ma, da, ta)"
  shows "snd (main w) = Inl (ValueError msg) \<longleftrightarrow>
         snd (check_output_dir w ta) = Inl (ValueError msg)"
  using assms
  by (simp add: main_def snd_and_then_Inl snd_call_ValueError snd_call_Inr
      snd_setup_tokenizer_ValueError snd_last_item_ValueError snd_setup_logging
      snd_train_and_save_ValueError snd_ret)

lemma main_ValueError_parsed:
  assumes "snd (main w) = Inl (ValueError msg)"
  shows "\<exists>ma da ta. parse_args_into_dataclasses w = Inr (ma, da, ta)"
proof (cases "parse_args_into_dataclasses w")
  case (Inl x)
  with assms show ?thesis
    by (simp add: main_def snd_and_then snd_call)
next
  case (Inr p)
  then show ?thesis
    by (cases p) auto
qed

lemma main_stops_at_check:
  assumes "parse_args_into_dataclasses w = Inr (ma, da, ta)"
      and "snd (check_output_dir w ta) = Inl e"
  shows "fst (main w) = EvParseArgs # fst (check_output_dir w ta)"
  using assms by (simp add: main_def fst_and_then snd_call fst_call)

lemma main_passes_check:
  assumes "parse_args_into_dataclasses w = Inr (ma, da, ta)"
      and "snd (check_output_dir w ta) = Inr ()"
  shows "EvLoggingBasicConfig (if local_rank ta \<in> {-1, 0} then INFO else WARN)
           \<in> set (fst (main w))"
  using assms by (simp add: main_def mem_and_then snd_call_Inr setup_logging_def)

lemma oracles_nonempty_dir_world:
  "parse_args_into_dataclasses nonempty_dir_world =
      Inr (example_model_args, example_data_args, example_training_args)"
  "path_exists nonempty_dir_world ''out''"
  "listdir nonempty_dir_world ''out'' = Inr [''checkpoint-500'']"
  by (simp_all add: nonempty_dir_world_def example_world_def)

lemma oracles_overwrite_world:
  "parse_args_into_dataclasses overwrite_world =
      Inr (example_model_args, example_data_args,
           example_training_args\<lparr>overwrite_output_dir := True\<rparr>)"
  "path_exists overwrite_world ''out''"
  "listdir overwrite_world ''out'' = Inr [''checkpoint-500'']"
  by (simp_all add: overwrite_world_def nonempty_dir_world_def example_world_def)

lemma example_training_args_simps:
  "output_dir example_training_args = ''out''"
  "do_train example_training_args"
  "\<not> overwrite_output_dir example_training_args"
  "local_rank example_training_args = 0"
  by (simp_all add: example_training_args_def)

lemma main_listdir_raises:
  assumes p: "parse_args_into_dataclasses w = Inr (ma, da, ta)"
      and e: "path_exists w (output_dir ta)"
      and l: "listdir w (output_dir ta) = Inl x"
  shows "snd (main w) = Inl (Raised (EvListDir (output_dir ta)) x)"
    and "fst (main w) = [EvParseArgs, EvPathExists (output_dir ta), EvListDir (output_dir ta)]"
proof -
  from e l have c: "snd (check_output_dir w ta) = Inl (Raised (EvListDir (output_dir ta)) x)"
    by (simp add: snd_check_output_dir)
  show "snd (main w) = Inl (Raised (EvListDir (output_dir ta)) x)"
    by (simp add: main_def p c snd_and_then snd_call)
  from e l show "fst (main w) =
      [EvParseArgs, EvPathExists (output_dir ta), EvListDir (output_dir ta)]"
    by (simp add: main_stops_at_check[OF p c] check_output_dir_def fst_and_then fst_call
        snd_call)
qed

lemma oracles_file_world:
  "parse_args_into_dataclasses file_world =
      Inr (example_model_args, example_data_args,
           example_training_args\<lparr>overwrite_output_dir := True\<rparr>)"
  "path_exists file_world ''out''"
  "listdir file_world ''out'' = Inl ''NotADirectoryError''"
  by (simp_all add: file_world_def example_world_def)

lemma trace_file_world:
  "fst (main file_world) = [EvParseArgs, EvPathExists ''out'', EvListDir ''out'']"
  by (simp add: main_def eval_simps example_defs file_world_def)

lemma result_file_world:
  "snd (main file_world) = Inl (Raised (EvListDir ''out'') ''NotADirectoryError'')"
  by (simp add: main_def eval_simps example_defs file_world_def)

text \<open>
  Claim C1, as stated, fails: the second and third of the four conditions are evaluated by
  calling \<^verbatim>\<open>os.listdir\<close> on every existing output path, before \<^verbatim>\<open>do_train\<close> and
  \<^verbatim>\<open>overwrite_output_dir\<close> are looked at. When the path exists but cannot be listed (here it
  is a regular file), the run is in one of the other combinations
  (\<^verbatim>\<open>overwrite_output_dir\<close> is set), and yet it does not proceed: \<^verbatim>\<open>os.listdir\<close> raises at
  line 29 and that exception leaves \<^verbatim>\<open>main\<close> before logging is set up.
\<close>

theorem output_file_stops_driver:
  "parse_args_into_dataclasses file_world =
      Inr (example_model_args, example_data_args,
           example_training_args\<lparr>overwrite_output_dir := True\<rparr>)
   \<and> overwrite_output_dir (example_training_args\<lparr>overwrite_output_dir := True\<rparr>)
   \<and> path_exists file_world ''out''
   \<and> listdir file_world ''out'' = Inl ''NotADirectoryError''
   \<and> fst (main file_world) = [EvParseArgs, EvPathExists ''out'', EvListDir ''out'']
   \<and> EvLoggingBasicConfig INFO \<notin> set (fst (main file_world))
   \<and> snd (main file_world) = Inl (Raised (EvListDir ''out'') ''NotADirectoryError'')"
  by (simp add: trace_file_world result_file_world oracles_file_world)

text \<open>
  Claim C1, amended. With the arguments parsed, \<^verbatim>\<open>main\<close> raises its \<^verbatim>\<open>ValueError\<close> (the only
  \<^verbatim>\<open>raise\<close> of its own) if and only if \<^verbatim>\<open>training_args.output_dir\<close> exists, its listing
  is not empty, \<^verbatim>\<open>do_train\<close> is set and \<^verbatim>\<open>overwrite_output_dir\<close> is not set. For every
  other combination of the four conditions in which \<^verbatim>\<open>os.listdir\<close> returns on the path if
  the path exists, the check passes, \<^verbatim>\<open>main\<close> goes on to set up logging, and no
  \<^verbatim>\<open>ValueError\<close> leaves \<^verbatim>\<open>main\<close>. When the path exists and \<^verbatim>\<open>os.listdir\<close> raises on it,
  that exception leaves \<^verbatim>\<open>main\<close> at the check, whatever \<^verbatim>\<open>do_train\<close> and
  \<^verbatim>\<open>overwrite_output_dir\<close> are.
\<close>

theorem output_dir_validation:
  assumes "parse_args_into_dataclasses w = Inr (model_args, data_args, training_args)"
  shows "(snd (main w) = Inl (ValueError msg) \<longleftrightarrow>
            msg = output_dir_message (output_dir training_args)
            \<and> path_exists w (output_dir training_args)
            \<and> (\<exists>entries. listdir w (output_dir training_args) = Inr entries \<and> entries \<noteq> [])
            \<and> do_train training_args \<and> \<not> overwrite_output_dir training_args)
       \<and> ((path_exists w (output_dir training_args) \<longrightarrow>
              (\<exists>entries. listdir w (output_dir training_args) = Inr entries))
            \<and> \<not> (path_exists w (output_dir training_args)
                  \<and> (\<exists>entries. listdir w (output_dir training_args) = Inr entries
                        \<and> entries \<noteq> [])
                  \<and> do_train training_args \<and> \<not> overwrite_output_dir training_args) \<longrightarrow>
            snd (check_output_dir w training_args) = Inr ()
            \<and> EvLoggingBasicConfig (if local_rank training_args \<in> {-1, 0} then INFO else WARN)
                 \<in> set (fst (main w))
            \<and> (\<forall>m. snd (main w) \<noteq> Inl (ValueError m)))
       \<and> (\<forall>x. path_exists w (output_dir training_args)
                \<and> listdir w (output_dir training_args) = Inl x \<longrightarrow>
            snd (main w) = Inl (Raised (EvListDir (output_dir training_args)) x)
            \<and> fst (main w) = [EvParseArgs, EvPathExists (output_dir training_args),
                               EvListDir (output_dir training_args)])"
proof -
  let ?d = "output_dir training_args"
  let ?conds = "path_exists w ?d \<and> (\<exists>entries. listdir w ?d = Inr entries \<and> entries \<noteq> [])
                  \<and> do_train training_args \<and> \<not> overwrite_output_dir training_args"
  have iff: "snd (main w) = Inl (ValueError m) \<longleftrightarrow> m = output_dir_message ?d \<and> ?conds" for m
    unfolding main_ValueError[OF assms] snd_check_output_dir
    by (auto split: sum.splits)
  have pass: "snd (check_output_dir w training_args) = Inr ()"
    if "path_exists w ?d \<longrightarrow> (\<exists>entries. listdir w ?d = Inr entries)" "\<not> ?conds"
    using that unfolding snd_check_output_dir by (auto split: sum.splits)
  have first: "(snd (main w) = Inl (ValueError msg) \<longleftrightarrow>
            msg = output_dir_message ?d \<and> ?conds)
       \<and> ((path_exists w ?d \<longrightarrow> (\<exists>entries. listdir w ?d = Inr entries)) \<and> \<not> ?conds \<longrightarrow>
            snd (check_output_dir w training_args) = Inr ()
            \<and> EvLoggingBasicConfig (if local_rank training_args \<in> {-1, 0} then INFO else WARN)
                 \<in> set (fst (main w))
            \<and> (\<forall>m. snd (main w) \<noteq> Inl (ValueError m)))"
    using iff pass main_passes_check[OF assms] by blast
  have stop: "\<forall>x. path_exists w ?d \<and> listdir w ?d = Inl x \<longrightarrow>
            snd (main w) = Inl (Raised (EvListDir ?d) x)
            \<and> fst (main w) = [EvParseArgs, EvPathExists ?d, EvListDir ?d]"
    using main_listdir_raises[OF assms] by blast
  from first stop show ?thesis
    by (intro conjI) (elim conjE, assumption)+
qed


theorem output_dir_validation_witness:
  "parse_args_into_dataclasses nonempty_dir_world =
      Inr (example_model_args, example_data_args, example_training_args)
   \<and> path_exists nonempty_dir_world ''out''
   \<and> listdir nonempty_dir_world ''out'' = Inr [''checkpoint-500'']
   \<and> do_train example_training_args \<and> \<not> overwrite_output_dir example_training_args
   \<and> snd (main nonempty_dir_world) = Inl (ValueError (output_dir_message ''out''))
   \<and> parse_args_into_dataclasses overwrite_world =
      Inr (example_model_args, example_data_args,
           example_training_args\<lparr>overwrite_output_dir := True\<rparr>)
   \<and> path_exists overwrite_world ''out''
   \<and> listdir overwrite_world ''out'' = Inr [''checkpoint-500'']
   \<and> overwrite_output_dir (example_training_args\<lparr>overwrite_output_dir := True\<rparr>)
   \<and> snd (check_output_dir overwrite_world
             (example_training_args\<lparr>overwrite_output_dir := True\<rparr>)) = Inr ()
   \<and> EvLoggingBasicConfig INFO \<in> set (fst (main overwrite_world))
   \<and> parse_args_into_dataclasses file_world =
      Inr (example_model_args, example_data_args,
           example_training_args\<lparr>overwrite_output_dir := True\<rparr>)
   \<and> path_exists file_world ''out''
   \<and> listdir file_world ''out'' = Inl ''NotADirectoryError''
   \<and> snd (main file_world) = Inl (Raised (EvListDir ''out'') ''NotADirectoryError'')"
proof -
  have o: "output_dir example_training_args = ''out''"
    "output_dir (example_training_args\<lparr>overwrite_output_dir := True\<rparr>) = ''out''"
    "local_rank (example_training_args\<lparr>overwrite_output_dir := True\<rparr>) = 0"
    "do_train example_training_args" "\<not> overwrite_output_dir example_training_args"
    "overwrite_output_dir (example_training_args\<lparr>overwrite_output_dir := True\<rparr>)"
    by (simp_all add: example_training_args_def)
  have i: "(if (0::int) \<in> {-1, 0} then INFO else WARN) = INFO"
    by simp
  have n: "[''checkpoint-500''] \<noteq> []"
    by simp
  from output_dir_validation[OF oracles_nonempty_dir_world(1),
      of "output_dir_message ''out''"] oracles_nonempty_dir_world(2,3) o(4,5) n
  have raised: "snd (main nonempty_dir_world) = Inl (ValueError (output_dir_message ''out''))"
    unfolding o(1) by blast
  from output_dir_validation[OF oracles_overwrite_world(1), of "[]"]
    oracles_overwrite_world(2,3) o(6)
  have passed: "snd (check_output_dir overwrite_world
             (example_training_args\<lparr>overwrite_output_dir := True\<rparr>)) = Inr ()
   \<and> EvLoggingBasicConfig INFO \<in> set (fst (main overwrite_world))"
    unfolding o(2) o(3) i by blast
  from output_dir_validation[OF oracles_file_world(1), of "[]"] oracles_file_world(2,3)
  have stopped: "snd (main file_world) = Inl (Raised (EvListDir ''out'') ''NotADirectoryError'')"
    unfolding o(2) by blast
  from raised passed stopped oracles_nonempty_dir_world oracles_overwrite_world
    oracles_file_world o(4,5,6)
  show ?thesis
    by blast
qed

subsection \<open>C6: nothing has happened when the check raises\<close>

text \<open>
  Claim C6. Whenever \<^verbatim>\<open>main\<close> raises the \<^verbatim>\<open>ValueError\<close> for a non-empty output directory,
  the arguments were parsed, the directory exists, and the only calls the run has made are
  the argument parser and the two read-only queries \<^verbatim>\<open>os.path.exists\<close> and
  \<^verbatim>\<open>os.listdir\<close>: no directory has been created by \<^verbatim>\<open>mkdir\<close>, no seed has been set, no
  tokenizer, model or config has been loaded, and no call from the logging setup on has
  been made.
\<close>

theorem value_error_atomic:
  assumes "snd (main w) = Inl (ValueError msg)"
  shows "\<exists>model_args data_args training_args.
           parse_args_into_dataclasses w = Inr (model_args, data_args, training_args)
           \<and> path_exists w (output_dir training_args)
           \<and> fst (main w) =
               [EvParseArgs, EvPathExists (output_dir training_args),
                EvListDir (output_dir training_args)]
           \<and> (\<forall>d. EvMkdir d \<notin> set (fst (main w)))
           \<and> (\<forall>s. EvSetSeed s \<notin> set (fst (main w)))
           \<and> (\<forall>n. EvTokenizerFromPretrained n \<notin> set (fst (main w)))
           \<and> (\<forall>y. EvGetModel y \<notin> set (fst (main w)))
           \<and> (\<forall>n. EvConfigFromPretrained n \<notin> set (fst (main w)))
           \<and> (\<forall>e\<in>set (fst (main w)). event_rank e < event_rank (EvLoggingBasicConfig INFO))"
proof -
  from main_ValueError_parsed[OF assms] obtain ma da ta
    where p: "parse_args_into_dataclasses w = Inr (ma, da, ta)"
    by blast
  from assms have c: "snd (check_output_dir w ta) = Inl (ValueError msg)"
    by (simp add: main_ValueError[OF p])
  then have ex: "path_exists w (output_dir ta)"
    by (simp add: snd_check_output_dir split: if_splits)
  from main_stops_at_check[OF p c] ex
  have tr: "fst (main w) = [EvParseArgs, EvPathExists (output_dir ta), EvListDir (output_dir ta)]"
    by (simp add: fst_check_output_dir)
  show ?thesis
    using p ex tr by simp
qed

theorem value_error_atomic_witness:
  "snd (main nonempty_dir_world) = Inl (ValueError (output_dir_message ''out''))
   \<and> fst (main nonempty_dir_world) = [EvParseArgs, EvPathExists ''out'', EvListDir ''out'']
   \<and> EvMkdir ''out'' \<notin> set (fst (main nonempty_dir_world))
   \<and> EvSetSeed 42 \<notin> set (fst (main nonempty_dir_world))"
proof -
  have r: "snd (main nonempty_dir_world) = Inl (ValueError (output_dir_message ''out''))"
    by (simp add: main_ValueError[OF oracles_nonempty_dir_world(1)] snd_check_output_dir
        oracles_nonempty_dir_world example_training_args_simps)
  from value_error_atomic[OF r] obtain ma da ta
    where p: "parse_args_into_dataclasses nonempty_dir_world = Inr (ma, da, ta)"
      and t: "fst (main nonempty_dir_world) =
                [EvParseArgs, EvPathExists (output_dir ta), EvListDir (output_dir ta)]"
    by blast
  from p have "ta = example_training_args"
    by (simp add: oracles_nonempty_dir_world)
  with t have "fst (main nonempty_dir_world) =
      [EvParseArgs, EvPathExists ''out'', EvListDir ''out'']"
    by (simp add: example_training_args_simps)
  with r show ?thesis
    by simp
qed

subsection \<open>C7: the pad-token fallback\<close>

lemma run_eqI: "fst m = tr \<Longrightarrow> snd m = r \<Longrightarrow> m = (tr, r)"
  by (cases m) simp

lemma pad_token_fallback_simps:
  "pad_token_id tok \<noteq> None \<Longrightarrow> pad_token_fallback tok = ret tok"
  "pad_token_id tok = None \<Longrightarrow> unk_token_id tok \<noteq> None \<Longrightarrow>
     pad_token_fallback tok = ret (tok\<lparr>pad_token_id := unk_token_id tok\<rparr>)"
  "pad_token_id tok = None \<Longrightarrow> unk_token_id tok = None \<Longrightarrow> eod_id tok = Attr (Some e) \<Longrightarrow>
     im_start_id tok = Attr s \<Longrightarrow> im_end_id tok = Attr t \<Longrightarrow>
     pad_token_fallback tok =
       ret (tok\<lparr>pad_token_id := Some e, bos_token_id := s, eos_token_id := t\<rparr>)"
  by (auto simp add: pad_token_fallback_def getattr_def ret_then)

lemma main_wrapper_tokenizer:
  assumes "parse_args_into_dataclasses w = Inr (ma, da, ta)"
      and "tokenizer_from_pretrained w (if_else (tokenizer_name ma) (model_name_or_path ma)) = Inr tok"
      and "EvBiEncoderModel args \<in> set (fst (main w))"
  shows "setup_tokenizer ma tok = ret (arg_tokenizer args)"
proof -
  from assms have "snd (setup_tokenizer ma tok) = Inr (arg_tokenizer args)"
    by (auto simp add: main_mem_simps split: if_splits)
  then show ?thesis
    unfolding ret_def by (intro run_eqI fst_setup_tokenizer)
qed

text \<open>
  Claim C7. The pad-token fallback of lines 68 to 74 leaves a tokenizer that already has a
  \<^verbatim>\<open>pad_token_id\<close> unchanged. If \<^verbatim>\<open>pad_token_id\<close> was \<^verbatim>\<open>None\<close>: when \<^verbatim>\<open>unk_token_id\<close> is
  not \<^verbatim>\<open>None\<close>, \<^verbatim>\<open>pad_token_id\<close> becomes \<^verbatim>\<open>unk_token_id\<close> and nothing else changes,
  whatever \<^verbatim>\<open>eod_id\<close> is; otherwise, when \<^verbatim>\<open>eod_id\<close> is not \<^verbatim>\<open>None\<close>, \<^verbatim>\<open>pad_token_id\<close>
  becomes \<^verbatim>\<open>eod_id\<close>, \<^verbatim>\<open>bos_token_id\<close> becomes \<^verbatim>\<open>im_start_id\<close> and \<^verbatim>\<open>eos_token_id\<close> becomes
  \<^verbatim>\<open>im_end_id\<close>. After the whole tokenizer setup (line 75 included) the tokenizer is that
  result with \<^verbatim>\<open>padding_side\<close> set from the model arguments, and it is the tokenizer that
  \<^verbatim>\<open>main\<close> passes on to the wrapper.
\<close>

theorem pad_token_fallback_invariant:
  "(pad_token_id tok \<noteq> None \<longrightarrow>
      pad_token_fallback tok = ret tok
      \<and> setup_tokenizer model_args tok =
          ret (tok\<lparr>tok_padding_side := padding_side model_args\<rparr>))
   \<and> (pad_token_id tok = None \<and> unk_token_id tok \<noteq> None \<longrightarrow>
      pad_token_fallback tok = ret (tok\<lparr>pad_token_id := unk_token_id tok\<rparr>)
      \<and> setup_tokenizer model_args tok =
          ret (tok\<lparr>pad_token_id := unk_token_id tok,
                   tok_padding_side := padding_side model_args\<rparr>))
   \<and> (pad_token_id tok = None \<and> unk_token_id tok = None \<and> eod_id tok = Attr (Some e)
        \<and> im_start_id tok = Attr s \<and> im_end_id tok = Attr t \<longrightarrow>
      pad_token_fallback tok =
        ret (tok\<lparr>pad_token_id := Some e, bos_token_id := s, eos_token_id := t\<rparr>)
      \<and> setup_tokenizer model_args tok =
          ret (tok\<lparr>pad_token_id := Some e, bos_token_id := s, eos_token_id := t,
                   tok_padding_side := padding_side model_args\<rparr>))
   \<and> (parse_args_into_dataclasses w = Inr (model_args, data_args, training_args)
        \<and> tokenizer_from_pretrained w
             (if_else (tokenizer_name model_args) (model_name_or_path model_args)) = Inr tok
        \<and> EvBiEncoderModel args \<in> set (fst (main w)) \<longrightarrow>
      setup_tokenizer model_args tok = ret (arg_tokenizer args))"
  by (auto simp add: pad_token_fallback_simps setup_tokenizer_def ret_then
      dest: main_wrapper_tokenizer)

theorem pad_token_fallback_invariant_witness:
  "pad_token_id padded_tokenizer = Some 3
   \<and> pad_token_fallback padded_tokenizer = ret padded_tokenizer
   \<and> pad_token_id unk_and_eod_tokenizer = None
   \<and> unk_token_id unk_and_eod_tokenizer = Some 0
   \<and> eod_id unk_and_eod_tokenizer = Attr (Some 151643)
   \<and> pad_token_fallback unk_and_eod_tokenizer =
       ret (unk_and_eod_tokenizer\<lparr>pad_token_id := Some 0\<rparr>)
   \<and> pad_token_id qwen_tokenizer = None \<and> unk_token_id qwen_tokenizer = None
   \<and> eod_id qwen_tokenizer = Attr (Some 151643)
   \<and> im_start_id qwen_tokenizer = Attr (Some 151644)
   \<and> im_end_id qwen_tokenizer = Attr (Some 151645)
   \<and> setup_tokenizer example_model_args qwen_tokenizer =
       ret (qwen_tokenizer\<lparr>pad_token_id := Some 151643, bos_token_id := Some 151644,
              eos_token_id := Some 151645, tok_padding_side := ''right''\<rparr>)
   \<and> parse_args_into_dataclasses example_world =
       Inr (example_model_args, example_data_args, example_training_args)
   \<and> tokenizer_from_pretrained example_world ''reranker-tokenizer'' = Inr example_tokenizer
   \<and> EvBiEncoderModel example_wrapper_args \<in> set (fst (main example_world))
   \<and> setup_tokenizer example_model_args example_tokenizer =
       ret (arg_tokenizer example_wrapper_args)"
proof -
  have p: "pad_token_id padded_tokenizer = Some 3"
    by (simp add: padded_tokenizer_def)
  have u: "pad_token_id unk_and_eod_tokenizer = None"
    "unk_token_id unk_and_eod_tokenizer = Some 0"
    "eod_id unk_and_eod_tokenizer = Attr (Some 151643)"
    by (simp_all add: unk_and_eod_tokenizer_def qwen_tokenizer_def)
  have q: "pad_token_id qwen_tokenizer = None" "unk_token_id qwen_tokenizer = None"
    "eod_id qwen_tokenizer = Attr (Some 151643)"
    "im_start_id qwen_tokenizer = Attr (Some 151644)"
    "im_end_id qwen_tokenizer = Attr (Some 151645)"
    by (simp_all add: qwen_tokenizer_def)
  have l: "tokenizer_from_pretrained example_world
             (if_else (tokenizer_name example_model_args)
                (model_name_or_path example_model_args)) = Inr example_tokenizer"
    "tokenizer_from_pretrained example_world ''reranker-tokenizer'' = Inr example_tokenizer"
    by (simp_all add: example_world_def)
  have m: "EvBiEncoderModel example_wrapper_args \<in> set (fst (main example_world))"
    by (simp add: trace_example_world)
  have s: "padding_side example_model_args = ''right''"
    by (simp add: example_model_args_def)
  from pad_token_fallback_invariant[where tok = padded_tokenizer] p
  have a: "pad_token_fallback padded_tokenizer = ret padded_tokenizer"
    by simp
  from pad_token_fallback_invariant[where tok = unk_and_eod_tokenizer] u
  have b: "pad_token_fallback unk_and_eod_tokenizer =
       ret (unk_and_eod_tokenizer\<lparr>pad_token_id := Some 0\<rparr>)"
    by simp
  from pad_token_fallback_invariant[where tok = qwen_tokenizer and e = 151643
      and s = "Some 151644" and t = "Some 151645" and model_args = example_model_args] q s
  have c: "setup_tokenizer example_model_args qwen_tokenizer =
       ret (qwen_tokenizer\<lparr>pad_token_id := Some 151643, bos_token_id := Some 151644,
              eos_token_id := Some 151645, tok_padding_side := ''right''\<rparr>)"
    by simp
  from pad_token_fallback_invariant[where tok = example_tokenizer
      and model_args = example_model_args and w = example_world
      and data_args = example_data_args and training_args = example_training_args
      and args = example_wrapper_args]
    parse_example_world l(1) m
  have d: "setup_tokenizer example_model_args example_tokenizer =
       ret (arg_tokenizer example_wrapper_args)"
    by blast
  from p u q l(2) m a b c d parse_example_world show ?thesis
    by blast
qed

subsection \<open>C4: the order of the stages\<close>

lemma stage_rank_mono:
  "stage_of e = Some s \<Longrightarrow> stage_of e' = Some t \<Longrightarrow> event_rank e \<le> event_rank e' \<Longrightarrow>
     stage_index s \<le> stage_index t"
  by (cases e; cases e'; simp)

lemma stage_entry_le: "stage_of e = Some s \<Longrightarrow> stage_entry s \<le> event_rank e"
  by (cases e) auto

lemma stage_entry_mono: "stage_index s < stage_index t \<Longrightarrow> stage_entry s < stage_entry t"
  by (cases s; cases t; simp)

lemma stage_at_entry: "event_rank e = stage_entry s \<Longrightarrow> stage_of e = Some s"
  by (cases e; cases s; simp split: if_splits)

lemma sorted_last_max:
  assumes "sorted_wrt (<) (map f xs)" and "e \<in> set xs"
  shows "f e \<le> (f (last xs) :: nat)"
proof -
  from assms(2) have ne: "xs \<noteq> []" by auto
  then have xs: "xs = butlast xs @ [last xs]" by simp
  from assms(1) have "sorted_wrt (<) (map f (butlast xs @ [last xs]))"
    using xs by simp
  then have "\<forall>a\<in>set (butlast xs). f a < f (last xs)"
    by (simp add: sorted_wrt_append)
  moreover from assms(2) xs have "e \<in> set (butlast xs) \<or> e = last xs"
    by (metis Un_iff empty_iff insert_iff list.set(1) list.set(2) set_append)
  ultimately show ?thesis
    by auto
qed

lemma main_sorted: "sorted_wrt (<) (map event_rank (fst (main w)))"
  using ordered_main[of w] by (simp add: ordered_from_def)

lemma main_stage_positions:
  assumes "i < length (fst (main w))" and "j < length (fst (main w))"
      and "stage_of (fst (main w) ! i) = Some s" and "stage_of (fst (main w) ! j) = Some t"
      and "stage_index s < stage_index t"
  shows "i < j"
proof (rule ccontr)
  assume "\<not> i < j"
  then have "j \<le> i" by simp
  have "event_rank (fst (main w) ! j) \<le> event_rank (fst (main w) ! i)"
  proof (cases "j = i")
    case True
    then show ?thesis by simp
  next
    case False
    with \<open>j \<le> i\<close> have "j < i" by simp
    with main_sorted[of w] assms(1) have "event_rank (fst (main w) ! j) < event_rank (fst (main w) ! i)"
      by (simp add: sorted_wrt_iff_nth_less)
    then show ?thesis by simp
  qed
  from stage_rank_mono[OF assms(4) assms(3) this] assms(5) show False
    by simp
qed

lemma main_raised_last:
  assumes "snd (main w) = Inl (Raised ev x)"
  shows "fst (main w) \<noteq> [] \<and> last (fst (main w)) = ev"
  using raised_last_main[of w] assms by (simp add: raised_last_def)

lemma entered_here: "event_rank ev = k \<Longrightarrow> entered_before k (and_then (call ev out) f)"
  by (auto simp: entered_before_def fst_and_then fst_call)

lemma entered_skip:
  assumes "\<forall>e\<in>set (fst m). event_rank e < k" and "\<And>v. entered_before k (f v)"
  shows "entered_before k (and_then m f)"
  unfolding entered_before_def
proof (intro ballI impI)
  fix e assume e: "e \<in> set (fst (and_then m f))" and k: "k < event_rank e"
  from k assms(1) have "e \<notin> set (fst m)" by auto
  with e obtain v where v: "snd m = Inr v" "e \<in> set (fst (f v))"
    by (auto simp: mem_and_then)
  from assms(2)[of v] v(2) k obtain e' where "e' \<in> set (fst (f v))" "event_rank e' = k"
    by (auto simp: entered_before_def)
  with v(1) show "\<exists>e'\<in>set (fst (and_then m f)). event_rank e' = k"
    by (auto simp: mem_and_then)
qed

lemma entered_case_prod:
  "(\<And>a b. entered_before k (f a b)) \<Longrightarrow> entered_before k (case x of (a, b) \<Rightarrow> f a b)"
  by (cases x) simp

lemmas skip_simps = fst_call fst_ret fst_check_output_dir fst_setup_tokenizer fst_last_item
  setup_logging_def

lemma main_entered_before:
  "entered_before 0 (main w)"
  "entered_before 9 (main w)"
  "entered_before 11 (main w)"
  "entered_before 14 (main w)"
  "entered_before 16 (main w)"
  "entered_before 20 (main w)"
  "entered_before 21 (main w)"
  unfolding main_def train_and_save_def
  by ((rule entered_case_prod | (rule entered_here, (simp; fail))
        | (rule entered_skip, (simp add: skip_simps; fail)))+)

lemma map_filter_append:
  "List.map_filter f (xs @ ys) = List.map_filter f xs @ List.map_filter f ys"
  by (simp add: List.map_filter_def)

lemma stages_check_output_dir: "List.map_filter stage_of (fst (check_output_dir w ta)) = []"
  by (simp add: fst_check_output_dir)

lemma stages_setup_logging: "List.map_filter stage_of (fst (setup_logging ta)) = []"
  by (simp add: setup_logging_def)

lemma stages_save_final_checkpoint:
  "List.map_filter stage_of (fst (save_final_checkpoint w ma ta)) =
     replicate (if \<not> use_lora ma \<and> trainer_deepspeed w \<noteq> None then 1 else 0) Persistence"
  by (simp add: fst_save_final_checkpoint)

lemma stages_train_and_save:
  assumes "snd (train_and_save w ma ta) = Inr ()"
  shows "\<exists>n. List.map_filter stage_of (fst (train_and_save w ma ta)) =
            TrainingLoop # Persistence # replicate n Persistence"
proof -
  from assms obtain zero where z: "train w = Inr ()" "save_model w = Inr ()"
    "snd (save_final_checkpoint w ma ta) = Inr ()" "is_world_process_zero w = Inr zero"
    by (auto simp: train_and_save_def snd_and_then_Inr snd_call_Inr snd_ret
        split del: if_split)
  have "List.map_filter stage_of (fst (train_and_save w ma ta)) =
      TrainingLoop # Persistence #
        replicate ((if \<not> use_lora ma \<and> trainer_deepspeed w \<noteq> None then 1 else 0)
                   + (if zero then 1 else 0)) Persistence"
    using z
    by (auto simp: train_and_save_def fst_and_then fst_call snd_call fst_ret snd_ret
        map_filter_append fst_save_final_checkpoint)
  then show ?thesis
    by blast
qed

lemma remdups_adj_Cons_replicate: "remdups_adj (x # replicate n x) = [x]"
  using remdups_adj_replicate[of "Suc n" x] by simp

lemma stages_enable_grads:
  "List.map_filter stage_of
     (fst (if c then call EvEnableInputRequireGrads out else ret ())) = []"
  by (simp add: fst_call fst_ret)

lemma main_stages_through_setup:
  assumes p: "parse_args_into_dataclasses w = Inr (ma, da, ta)"
      and f: "snd (check_output_dir w ta) = Inr ()"
        "set_seed w = Inr ()"
        "tokenizer_from_pretrained w
           (if_else (tokenizer_name ma) (model_name_or_path ma)) = Inr tok"
        "snd (setup_tokenizer ma tok) = Inr tok'"
        "tokenizer_call w ''Yes'' = Inr ids"
        "snd (last_item ids) = Inr yes"
        "get_model w = Inr bm"
        "config_from_pretrained w (if_else (config_name ma) (model_name_or_path ma)) = Inr ()"
        "BiEncoderModel_init w = Inr ()"
        "snd (if gradient_checkpointing ta
              then call EvEnableInputRequireGrads (enable_input_require_grads w)
              else ret ()) = Inr ()"
        "TrainDatasetForReranker_init w = Inr ()"
        "RerankCollator_init w = Inr ()"
        "BiTrainer_init w = Inr ()"
        "mkdir w (output_dir ta) = Inr ()"
  shows "List.map_filter stage_of (fst (main w)) =
      [ArgumentParsing, TokenizerSetup, BaseModelLoading, WrapperConstruction,
       DatasetAndCollator, DatasetAndCollator]
      @ List.map_filter stage_of (fst (train_and_save w ma ta))"
  by (simp add: main_def p f fst_and_then fst_call snd_call snd_setup_logging
      fst_setup_tokenizer fst_last_item map_filter_append stages_check_output_dir
      stages_setup_logging stages_enable_grads split del: if_split)

lemma main_success_stages:
  assumes "snd (main w) = Inr ()"
  shows "stages_entered (fst (main w)) = pipeline"
proof -
  from assms obtain ma da ta where p: "parse_args_into_dataclasses w = Inr (ma, da, ta)"
    by (cases "parse_args_into_dataclasses w") (auto simp: main_def snd_and_then snd_call)
  from assms p obtain tok tok' ids yes bm where f:
    "snd (check_output_dir w ta) = Inr ()"
    "set_seed w = Inr ()"
    "tokenizer_from_pretrained w (if_else (tokenizer_name ma) (model_name_or_path ma)) = Inr tok"
    "snd (setup_tokenizer ma tok) = Inr tok'"
    "tokenizer_call w ''Yes'' = Inr ids"
    "snd (last_item ids) = Inr yes"
    "get_model w = Inr bm"
    "config_from_pretrained w (if_else (config_name ma) (model_name_or_path ma)) = Inr ()"
    "BiEncoderModel_init w = Inr ()"
    "snd (if gradient_checkpointing ta
          then call EvEnableInputRequireGrads (enable_input_require_grads w)
          else ret ()) = Inr ()"
    "TrainDatasetForReranker_init w = Inr ()"
    "RerankCollator_init w = Inr ()"
    "BiTrainer_init w = Inr ()"
    "mkdir w (output_dir ta) = Inr ()"
    and t: "snd (train_and_save w ma ta) = Inr ()"
    by (auto simp add: main_def snd_and_then_Inr snd_call_Inr split del: if_split)
  from main_stages_through_setup[OF p f] stages_train_and_save[OF t] show ?thesis
    by (auto simp add: stages_entered_def pipeline_def remdups_adj_Cons_replicate)
qed

lemma snd_call_not_own:
  "snd (call ev out) \<noteq> Inl (AttributeError a)"
  "snd (call ev out) \<noteq> Inl IndexError"
  by (simp_all add: snd_call split: sum.splits)

lemma snd_cond_call_not_own:
  "snd (if c then call ev out else ret u) \<noteq> Inl (AttributeError a)"
  "snd (if c then call ev out else ret u) \<noteq> Inl IndexError"
  by (simp_all add: snd_call_not_own snd_ret)

lemma snd_check_output_dir_not_own:
  "snd (check_output_dir w ta) \<noteq> Inl (AttributeError a)"
  "snd (check_output_dir w ta) \<noteq> Inl IndexError"
  by (simp_all add: snd_check_output_dir split: sum.splits)

lemma snd_setup_tokenizer_not_IndexError: "snd (setup_tokenizer ma tok) \<noteq> Inl IndexError"
  by (simp add: setup_tokenizer_def pad_token_fallback_def getattr_def snd_and_then snd_ret
      snd_raise split: attr.splits sum.splits)

lemma snd_setup_tokenizer_AttributeError_name:
  "snd (setup_tokenizer ma tok) = Inl (AttributeError a) \<Longrightarrow> a \<noteq> ''save_checkpoint''"
  by (auto simp add: setup_tokenizer_def pad_token_fallback_def getattr_def snd_and_then
      snd_ret snd_raise split: attr.splits sum.splits if_splits)

lemma snd_last_item_not_AttributeError: "snd (last_item ids) \<noteq> Inl (AttributeError a)"
  by (simp add: last_item_def snd_ret snd_raise)

lemma snd_save_final_checkpoint_AttributeError:
  "snd (save_final_checkpoint w ma ta) = Inl (AttributeError a) \<longleftrightarrow>
     \<not> use_lora ma \<and> trainer_deepspeed w = None \<and> a = ''save_checkpoint''"
  by (auto simp add: save_final_checkpoint_def snd_call snd_raise snd_ret
      split: option.splits sum.splits)

lemma snd_save_final_checkpoint_not_IndexError:
  "snd (save_final_checkpoint w ma ta) \<noteq> Inl IndexError"
  by (simp add: save_final_checkpoint_def snd_call_not_own snd_raise snd_ret
      split: option.splits)

lemma snd_train_and_save_AttributeError:
  "snd (train_and_save w ma ta) = Inl (AttributeError a) \<longleftrightarrow>
     train w = Inr () \<and> save_model w = Inr () \<and> \<not> use_lora ma
     \<and> trainer_deepspeed w = None \<and> a = ''save_checkpoint''"
  by (auto simp add: train_and_save_def snd_and_then_Inl snd_call_not_own snd_call_Inr
      snd_save_final_checkpoint_AttributeError snd_cond_call_not_own)

lemma snd_train_and_save_not_IndexError: "snd (train_and_save w ma ta) \<noteq> Inl IndexError"
  by (simp add: train_and_save_def snd_and_then_Inl snd_call_not_own
      snd_save_final_checkpoint_not_IndexError snd_ret)

lemma stages_train_and_save_no_engine:
  assumes "train w = Inr ()" and "save_model w = Inr ()" and "\<not> use_lora ma"
      and "trainer_deepspeed w = None"
  shows "List.map_filter stage_of (fst (train_and_save w ma ta)) = [TrainingLoop, Persistence]"
  using assms
  by (simp add: train_and_save_def fst_and_then fst_call snd_call fst_save_final_checkpoint
      save_final_checkpoint_def snd_raise fst_raise)

lemma main_parsed:
  assumes "snd (main w) = Inl e" and "\<forall>x. e \<noteq> Raised EvParseArgs x"
  shows "\<exists>ma da ta. parse_args_into_dataclasses w = Inr (ma, da, ta)"
proof (cases "parse_args_into_dataclasses w")
  case (Inl x)
  with assms show ?thesis
    by (auto simp add: main_def snd_and_then snd_call)
next
  case (Inr p)
  then show ?thesis
    by (cases p) auto
qed

lemma main_AttributeError_stages:
  assumes "snd (main w) = Inl (AttributeError a)"
  shows "a \<noteq> ''save_checkpoint''
           \<and> stages_entered (fst (main w)) = [ArgumentParsing, TokenizerSetup]
         \<or> a = ''save_checkpoint'' \<and> stages_entered (fst (main w)) = pipeline"
proof -
  from main_parsed[OF assms] obtain ma da ta
    where p: "parse_args_into_dataclasses w = Inr (ma, da, ta)"
    by auto
  from assms p consider
    (in_setup) tok where
      "snd (check_output_dir w ta) = Inr ()"
      "set_seed w = Inr ()"
      "tokenizer_from_pretrained w
         (if_else (tokenizer_name ma) (model_name_or_path ma)) = Inr tok"
      "snd (setup_tokenizer ma tok) = Inl (AttributeError a)"
  | (in_checkpoint) tok tok' ids yes bm where
      "snd (check_output_dir w ta) = Inr ()"
      "set_seed w = Inr ()"
      "tokenizer_from_pretrained w
         (if_else (tokenizer_name ma) (model_name_or_path ma)) = Inr tok"
      "snd (setup_tokenizer ma tok) = Inr tok'"
      "tokenizer_call w ''Yes'' = Inr ids"
      "snd (last_item ids) = Inr yes"
      "get_model w = Inr bm"
      "config_from_pretrained w (if_else (config_name ma) (model_name_or_path ma)) = Inr ()"
      "BiEncoderModel_init w = Inr ()"
      "snd (if gradient_checkpointing ta
            then call EvEnableInputRequireGrads (enable_input_require_grads w)
            else ret ()) = Inr ()"
      "TrainDatasetForReranker_init w = Inr ()"
      "RerankCollator_init w = Inr ()"
      "BiTrainer_init w = Inr ()"
      "mkdir w (output_dir ta) = Inr ()"
      "snd (train_and_save w ma ta) = Inl (AttributeError a)"
    by (auto simp add: main_def snd_and_then_Inl snd_call_Inr snd_call_not_own
        snd_check_output_dir_not_own snd_setup_logging snd_last_item_not_AttributeError
        snd_cond_call_not_own snd_ret split del: if_split)
  then show ?thesis
  proof cases
    case in_setup
    have "stages_entered (fst (main w)) = [ArgumentParsing, TokenizerSetup]"
      by (simp add: main_def p in_setup fst_and_then fst_call snd_call snd_setup_logging
          fst_setup_tokenizer stages_entered_def map_filter_append stages_check_output_dir
          stages_setup_logging)
    with snd_setup_tokenizer_AttributeError_name[OF in_setup(4)] show ?thesis
      by simp
  next
    case in_checkpoint
    from in_checkpoint(15) have t: "train w = Inr ()" "save_model w = Inr ()" "\<not> use_lora ma"
      "trainer_deepspeed w = None" "a = ''save_checkpoint''"
      by (simp_all add: snd_train_and_save_AttributeError)
    from main_stages_through_setup[OF p in_checkpoint(1-14)]
      stages_train_and_save_no_engine[OF t(1-4)] t(5)
    show ?thesis
      by (simp add: stages_entered_def pipeline_def)
  qed
qed

lemma main_IndexError_stages:
  assumes "snd (main w) = Inl IndexError"
  shows "stages_entered (fst (main w)) = [ArgumentParsing, TokenizerSetup]"
proof -
  from main_parsed[OF assms] obtain ma da ta
    where p: "parse_args_into_dataclasses w = Inr (ma, da, ta)"
    by auto
  from assms p obtain tok tok' ids where f:
    "snd (check_output_dir w ta) = Inr ()"
    "set_seed w = Inr ()"
    "tokenizer_from_pretrained w (if_else (tokenizer_name ma) (model_name_or_path ma)) = Inr tok"
    "snd (setup_tokenizer ma tok) = Inr tok'"
    "tokenizer_call w ''Yes'' = Inr ids"
    "snd (last_item ids) = Inl IndexError"
    by (auto simp add: main_def snd_and_then_Inl snd_call_Inr snd_call_not_own
        snd_check_output_dir_not_own snd_setup_logging snd_setup_tokenizer_not_IndexError
        snd_train_and_save_not_IndexError snd_cond_call_not_own snd_ret split del: if_split)
  show ?thesis
    by (simp add: main_def p f fst_and_then fst_call snd_call snd_setup_logging
        fst_setup_tokenizer fst_last_item stages_entered_def map_filter_append
        stages_check_output_dir stages_setup_logging)
qed

lemma main_ValueError_stages:
  assumes "snd (main w) = Inl (ValueError msg)"
  shows "stages_entered (fst (main w)) = [ArgumentParsing]"
proof -
  from main_parsed[OF assms] obtain ma da ta
    where p: "parse_args_into_dataclasses w = Inr (ma, da, ta)"
    by auto
  from assms have c: "snd (check_output_dir w ta) = Inl (ValueError msg)"
    by (simp add: main_ValueError[OF p])
  show ?thesis
    by (simp add: main_stops_at_check[OF p c] stages_entered_def stages_check_output_dir)
qed

lemma main_stage_closed:
  assumes "e \<in> set (fst (main w))" and "stage_of e = Some t"
      and "stage_index s < stage_index t"
  shows "\<exists>e'\<in>set (fst (main w)). stage_of e' = Some s"
proof -
  from stage_entry_mono[OF assms(3)] stage_entry_le[OF assms(2)]
  have lt: "stage_entry s < event_rank e"
    by simp
  have "entered_before (stage_entry s) (main w)"
    by (cases s) (simp_all add: main_entered_before)
  with assms(1) lt obtain e' where "e' \<in> set (fst (main w))" "event_rank e' = stage_entry s"
    by (auto simp: entered_before_def)
  with stage_at_entry[of e' s] show ?thesis
    by auto
qed

lemma main_raised_stops:
  assumes "snd (main w) = Inl (Raised ev x)" and "e \<in> set (fst (main w))"
  shows "event_rank e \<le> event_rank ev"
    and "stage_of ev = Some s \<Longrightarrow> stage_of e = Some t \<Longrightarrow> stage_index t \<le> stage_index s"
proof -
  from main_raised_last[OF assms(1)] have l: "last (fst (main w)) = ev"
    by simp
  from sorted_last_max[OF main_sorted assms(2)] l show r: "event_rank e \<le> event_rank ev"
    by simp
  show "stage_index t \<le> stage_index s" if "stage_of ev = Some s" "stage_of e = Some t"
    using stage_rank_mono[OF that(2) that(1) r] .
qed

subsection \<open>A run ends at the call that raises\<close>

lemma faithful_ret: "raises_faithfully w (ret x)"
  by (simp add: raises_faithfully_def fst_ret snd_ret)

lemma faithful_call: "raises_in w ev = exn_of out \<Longrightarrow> raises_faithfully w (call ev out)"
  by (cases out) (auto simp add: raises_faithfully_def fst_call snd_call exn_of_def)

lemma faithful_and_then:
  assumes "raises_faithfully w m" and "\<And>v. snd m = Inr v \<Longrightarrow> raises_faithfully w (f v)"
  shows "raises_faithfully w (and_then m f)"
proof (cases "snd m")
  case (Inl e)
  have fs: "fst (and_then m f) = fst m" "snd (and_then m f) = Inl e"
    by (simp_all add: fst_and_then snd_and_then Inl)
  from assms(1) have "(\<forall>ev x. ev \<in> set (fst m) \<and> raises_in w ev = Some x \<longrightarrow> e = Raised ev x)
      \<and> (\<forall>ev x. e = Raised ev x \<longrightarrow> ev \<in> set (fst m) \<and> raises_in w ev = Some x)"
    unfolding raises_faithfully_def Inl sum.inject .
  then show ?thesis
    unfolding raises_faithfully_def fs sum.inject .
next
  case (Inr v)
  have fs: "set (fst (and_then m f)) = set (fst m) \<union> set (fst (f v))"
    "snd (and_then m f) = snd (f v)"
    by (simp_all add: fst_and_then snd_and_then Inr)
  from assms(1) have "\<forall>ev x. ev \<in> set (fst m) \<and> raises_in w ev = Some x \<longrightarrow>
      snd m = Inl (Raised ev x)"
    unfolding raises_faithfully_def by (rule conjunct1)
  with Inr have quiet: "\<forall>ev x. ev \<in> set (fst m) \<longrightarrow> raises_in w ev \<noteq> Some x"
    by simp
  from assms(2)[OF Inr]
  have a: "\<forall>ev x. ev \<in> set (fst (f v)) \<and> raises_in w ev = Some x
             \<longrightarrow> snd (f v) = Inl (Raised ev x)"
    and b: "\<forall>ev x. snd (f v) = Inl (Raised ev x)
             \<longrightarrow> ev \<in> set (fst (f v)) \<and> raises_in w ev = Some x"
    unfolding raises_faithfully_def by (rule conjunct1, rule conjunct2)
  show ?thesis
    unfolding raises_faithfully_def fs using quiet a b by blast
qed

lemma faithful_if:
  "raises_faithfully w a \<Longrightarrow> raises_faithfully w b \<Longrightarrow>
     raises_faithfully w (if c then a else b)"
  by simp

lemma faithful_case_prod:
  "(\<And>a b. raises_faithfully w (f a b)) \<Longrightarrow> raises_faithfully w (case x of (a, b) \<Rightarrow> f a b)"
  by (cases x) simp

lemma faithful_silent:
  assumes "\<forall>ev\<in>set (fst m). raises_in w ev = None" and "\<And>ev x. snd m \<noteq> Inl (Raised ev x)"
  shows "raises_faithfully w m"
  using assms by (simp add: raises_faithfully_def)

lemma faithful_raise: "\<forall>ev x. e \<noteq> Raised ev x \<Longrightarrow> raises_faithfully w (raise e)"
  by (simp add: raises_faithfully_def fst_raise snd_raise)

lemma faithful_check_output_dir: "raises_faithfully w (check_output_dir w ta)"
  unfolding check_output_dir_def
  by (intro faithful_and_then faithful_call faithful_if faithful_ret faithful_raise)
     (simp_all add: exn_of_def)

lemma faithful_setup_logging: "raises_faithfully w (setup_logging ta)"
  by (rule faithful_silent) (simp_all add: setup_logging_def)

lemma snd_setup_tokenizer_not_Raised: "snd (setup_tokenizer ma tok) \<noteq> Inl (Raised ev x)"
  by (simp add: setup_tokenizer_def pad_token_fallback_def getattr_def snd_and_then snd_ret
      snd_raise split: attr.splits sum.splits)

lemma faithful_setup_tokenizer: "raises_faithfully w (setup_tokenizer ma tok)"
  by (rule faithful_silent) (simp_all add: fst_setup_tokenizer snd_setup_tokenizer_not_Raised)

lemma faithful_last_item: "raises_faithfully w (last_item ids)"
  by (rule faithful_silent) (simp_all add: last_item_def fst_ret fst_raise snd_ret snd_raise)

lemma faithful_save_final_checkpoint: "raises_faithfully w (save_final_checkpoint w ma ta)"
  by (auto simp add: save_final_checkpoint_def raises_faithfully_def fst_call snd_call
      fst_raise snd_raise fst_ret snd_ret exn_of_def split: option.splits sum.splits)

lemma faithful_main: "raises_faithfully w (main w)"
  unfolding main_def train_and_save_def
  by (intro faithful_and_then faithful_call faithful_if faithful_ret faithful_case_prod
      faithful_check_output_dir faithful_setup_logging faithful_setup_tokenizer
      faithful_last_item faithful_save_final_checkpoint)
     (simp_all add: exn_of_def)


lemma main_call_raises:
  assumes "ev \<in> set (fst (main w))" and "raises_in w ev = Some x"
  shows "snd (main w) = Inl (Raised ev x)"
  using faithful_main[of w] assms unfolding raises_faithfully_def by blast

lemma main_raised_genuine:
  assumes "snd (main w) = Inl (Raised ev x)"
  shows "ev \<in> set (fst (main w)) \<and> raises_in w ev = Some x"
  using faithful_main[of w] assms unfolding raises_faithfully_def by blast

lemma main_check_raises:
  assumes p: "parse_args_into_dataclasses w = Inr (ma, da, ta)"
      and c: "snd (check_output_dir w ta) = Inl e"
  shows "snd (main w) = Inl e \<and> stages_entered (fst (main w)) = [ArgumentParsing]"
proof
  show "snd (main w) = Inl e"
    by (simp add: main_def p c snd_and_then snd_call)
  show "stages_entered (fst (main w)) = [ArgumentParsing]"
    by (simp add: main_stops_at_check[OF p c] stages_entered_def stages_check_output_dir)
qed

lemma main_setup_tokenizer_raises:
  assumes p: "parse_args_into_dataclasses w = Inr (ma, da, ta)"
      and m: "EvTokenizerFromPretrained n \<in> set (fst (main w))"
      and l: "tokenizer_from_pretrained w n = Inr tok"
      and r: "snd (setup_tokenizer ma tok) = Inl e"
  shows "snd (main w) = Inl e
         \<and> stages_entered (fst (main w)) = [ArgumentParsing, TokenizerSetup]"
proof -
  from p m have f: "snd (check_output_dir w ta) = Inr ()" "set_seed w = Inr ()"
    and n: "n = if_else (tokenizer_name ma) (model_name_or_path ma)"
    by (auto simp add: main_mem_simps split: if_splits)
  from l n have l': "tokenizer_from_pretrained w
      (if_else (tokenizer_name ma) (model_name_or_path ma)) = Inr tok"
    by simp
  show ?thesis
    by (simp add: main_def p f l' r fst_and_then snd_and_then fst_call snd_call
        snd_setup_logging fst_setup_tokenizer stages_entered_def map_filter_append
        stages_check_output_dir stages_setup_logging)
qed

lemma main_empty_ids_raises:
  assumes p: "parse_args_into_dataclasses w = Inr (ma, da, ta)"
      and m: "EvTokenizerCall ''Yes'' \<in> set (fst (main w))"
      and i: "tokenizer_call w ''Yes'' = Inr []"
  shows "snd (main w) = Inl IndexError
         \<and> stages_entered (fst (main w)) = [ArgumentParsing, TokenizerSetup]"
proof -
  from p m obtain tok tok' where f: "snd (check_output_dir w ta) = Inr ()"
    "set_seed w = Inr ()"
    "tokenizer_from_pretrained w (if_else (tokenizer_name ma) (model_name_or_path ma)) = Inr tok"
    "snd (setup_tokenizer ma tok) = Inr tok'"
    by (auto simp add: main_mem_simps split: if_splits)
  show ?thesis
    by (simp add: main_def p f i fst_and_then snd_and_then fst_call snd_call
        snd_setup_logging fst_setup_tokenizer fst_last_item last_item_def snd_raise fst_raise
        stages_entered_def map_filter_append stages_check_output_dir stages_setup_logging)
qed

lemma trace_failed_load_world:
  "fst (main failed_load_world) =
    [EvParseArgs, EvPathExists ''out'', EvLoggingBasicConfig INFO,
     EvLoggerWarning 0 True False,
     EvLoggerInfo ''Training/evaluation parameters %s'',
     EvLoggerInfo ''Model parameters %s'',
     EvLoggerInfo ''Data parameters %s'', EvSetSeed 42,
     EvTokenizerFromPretrained ''reranker-tokenizer'', EvTokenizerCall ''Yes'',
     EvGetModel 7]"
  by (simp add: main_def eval_simps example_defs failed_load_world_def)

lemma raises_failed_load_world: "raises_in failed_load_world (EvGetModel 7) = Some ''OSError''"
  by (simp add: exn_of_def failed_load_world_def)

text \<open>
  Claim C4. In every run the calls are made in source order, each at most once, so that
  every call of an earlier stage comes before every call of a later stage, in the order
  argument parsing, tokenizer setup, base-model loading, construction of the wrapper,
  construction of the dataset and collator, the training loop, persistence; a stage is
  entered only after every earlier stage was; and a run that ends without an exception has
  gone through exactly these seven stages. Whenever a library call that the run makes
  raises, the run ends with that exception at that call: it is the last call, and no call
  of a later stage is made. The same holds for the exceptions raised by expressions of
  \<^verbatim>\<open>main\<close> itself: when the directory check raises, the run ends after argument parsing;
  when the tokenizer setup raises or the tokenization of \<^verbatim>\<open>'Yes'\<close> is empty, it ends after
  tokenizer setup. Conversely, a run ends with the exception of a library call only if
  that call was made and raised, and every exception is accounted for by one of these
  cases or by the checkpoint lookup of line 128, which is in the last stage.
\<close>

theorem pipeline_stage_order:
  "sorted_wrt (<) (map event_rank (fst (main w)))
   \<and> (\<forall>i j s t. i < length (fst (main w)) \<and> j < length (fst (main w))
         \<and> stage_of (fst (main w) ! i) = Some s \<and> stage_of (fst (main w) ! j) = Some t
         \<and> stage_index s < stage_index t \<longrightarrow> i < j)
   \<and> (\<forall>e\<in>set (fst (main w)). \<forall>s t. stage_of e = Some t \<and> stage_index s < stage_index t \<longrightarrow>
         (\<exists>e'\<in>set (fst (main w)). stage_of e' = Some s))
   \<and> (snd (main w) = Inr () \<longrightarrow> stages_entered (fst (main w)) = pipeline)
   \<and> (\<forall>ev x. ev \<in> set (fst (main w)) \<and> raises_in w ev = Some x \<longrightarrow>
         snd (main w) = Inl (Raised ev x) \<and> last (fst (main w)) = ev
         \<and> (\<forall>e\<in>set (fst (main w)). event_rank e \<le> event_rank ev)
         \<and> (\<forall>e\<in>set (fst (main w)). \<forall>s t. stage_of ev = Some s \<and> stage_of e = Some t \<longrightarrow>
               stage_index t \<le> stage_index s))
   \<and> (\<forall>ma da ta e. parse_args_into_dataclasses w = Inr (ma, da, ta)
         \<and> snd (check_output_dir w ta) = Inl e \<longrightarrow>
         snd (main w) = Inl e \<and> stages_entered (fst (main w)) = [ArgumentParsing])
   \<and> (\<forall>ma da ta n tok e. parse_args_into_dataclasses w = Inr (ma, da, ta)
         \<and> EvTokenizerFromPretrained n \<in> set (fst (main w))
         \<and> tokenizer_from_pretrained w n = Inr tok
         \<and> snd (setup_tokenizer ma tok) = Inl e \<longrightarrow>
         snd (main w) = Inl e
         \<and> stages_entered (fst (main w)) = [ArgumentParsing, TokenizerSetup])
   \<and> (\<forall>ma da ta. parse_args_into_dataclasses w = Inr (ma, da, ta)
         \<and> EvTokenizerCall ''Yes'' \<in> set (fst (main w))
         \<and> tokenizer_call w ''Yes'' = Inr [] \<longrightarrow>
         snd (main w) = Inl IndexError
         \<and> stages_entered (fst (main w)) = [ArgumentParsing, TokenizerSetup])
   \<and> (\<forall>ev x. snd (main w) = Inl (Raised ev x) \<longrightarrow>
         ev \<in> set (fst (main w)) \<and> raises_in w ev = Some x \<and> last (fst (main w)) = ev)
   \<and> (\<forall>msg. snd (main w) = Inl (ValueError msg) \<longrightarrow>
         stages_entered (fst (main w)) = [ArgumentParsing])
   \<and> (\<forall>a. snd (main w) = Inl (AttributeError a) \<longrightarrow>
         a \<noteq> ''save_checkpoint''
           \<and> stages_entered (fst (main w)) = [ArgumentParsing, TokenizerSetup]
         \<or> a = ''save_checkpoint'' \<and> stages_entered (fst (main w)) = pipeline)
   \<and> (snd (main w) = Inl IndexError \<longrightarrow>
         stages_entered (fst (main w)) = [ArgumentParsing, TokenizerSetup])"
proof (intro conjI)
  show "sorted_wrt (<) (map event_rank (fst (main w)))"
    by (rule main_sorted)
  show "\<forall>i j s t. i < length (fst (main w)) \<and> j < length (fst (main w))
         \<and> stage_of (fst (main w) ! i) = Some s \<and> stage_of (fst (main w) ! j) = Some t
         \<and> stage_index s < stage_index t \<longrightarrow> i < j"
    using main_stage_positions by blast
  show "\<forall>e\<in>set (fst (main w)). \<forall>s t. stage_of e = Some t \<and> stage_index s < stage_index t \<longrightarrow>
         (\<exists>e'\<in>set (fst (main w)). stage_of e' = Some s)"
    using main_stage_closed by blast
  show "snd (main w) = Inr () \<longrightarrow> stages_entered (fst (main w)) = pipeline"
    using main_success_stages by blast
  show "\<forall>ev x. ev \<in> set (fst (main w)) \<and> raises_in w ev = Some x \<longrightarrow>
         snd (main w) = Inl (Raised ev x) \<and> last (fst (main w)) = ev
         \<and> (\<forall>e\<in>set (fst (main w)). event_rank e \<le> event_rank ev)
         \<and> (\<forall>e\<in>set (fst (main w)). \<forall>s t. stage_of ev = Some s \<and> stage_of e = Some t \<longrightarrow>
               stage_index t \<le> stage_index s)"
  proof (intro allI impI, elim conjE)
    fix ev x assume "ev \<in> set (fst (main w))" "raises_in w ev = Some x"
    then have r: "snd (main w) = Inl (Raised ev x)"
      by (rule main_call_raises)
    from main_raised_last[OF r] main_raised_stops[OF r] r
    show "snd (main w) = Inl (Raised ev x) \<and> last (fst (main w)) = ev
         \<and> (\<forall>e\<in>set (fst (main w)). event_rank e \<le> event_rank ev)
         \<and> (\<forall>e\<in>set (fst (main w)). \<forall>s t. stage_of ev = Some s \<and> stage_of e = Some t \<longrightarrow>
               stage_index t \<le> stage_index s)"
      by blast
  qed
  show "\<forall>ma da ta e. parse_args_into_dataclasses w = Inr (ma, da, ta)
         \<and> snd (check_output_dir w ta) = Inl e \<longrightarrow>
         snd (main w) = Inl e \<and> stages_entered (fst (main w)) = [ArgumentParsing]"
    using main_check_raises by blast
  show "\<forall>ma da ta n tok e. parse_args_into_dataclasses w = Inr (ma, da, ta)
         \<and> EvTokenizerFromPretrained n \<in> set (fst (main w))
         \<and> tokenizer_from_pretrained w n = Inr tok
         \<and> snd (setup_tokenizer ma tok) = Inl e \<longrightarrow>
         snd (main w) = Inl e
         \<and> stages_entered (fst (main w)) = [ArgumentParsing, TokenizerSetup]"
    using main_setup_tokenizer_raises by blast
  show "\<forall>ma da ta. parse_args_into_dataclasses w = Inr (ma, da, ta)
         \<and> EvTokenizerCall ''Yes'' \<in> set (fst (main w))
         \<and> tokenizer_call w ''Yes'' = Inr [] \<longrightarrow>
         snd (main w) = Inl IndexError
         \<and> stages_entered (fst (main w)) = [ArgumentParsing, TokenizerSetup]"
    using main_empty_ids_raises by blast
  show "\<forall>ev x. snd (main w) = Inl (Raised ev x) \<longrightarrow>
         ev \<in> set (fst (main w)) \<and> raises_in w ev = Some x \<and> last (fst (main w)) = ev"
    using main_raised_genuine main_raised_last by blast
  show "\<forall>msg. snd (main w) = Inl (ValueError msg) \<longrightarrow>
         stages_entered (fst (main w)) = [ArgumentParsing]"
    using main_ValueError_stages by blast
  show "\<forall>a. snd (main w) = Inl (AttributeError a) \<longrightarrow>
         a \<noteq> ''save_checkpoint''
           \<and> stages_entered (fst (main w)) = [ArgumentParsing, TokenizerSetup]
         \<or> a = ''save_checkpoint'' \<and> stages_entered (fst (main w)) = pipeline"
    using main_AttributeError_stages by blast
  show "snd (main w) = Inl IndexError \<longrightarrow>
         stages_entered (fst (main w)) = [ArgumentParsing, TokenizerSetup]"
    using main_IndexError_stages by blast
qed

theorem pipeline_stage_order_witness:
  "snd (main example_world) = Inr ()
   \<and> stages_entered (fst (main example_world)) =
       [ArgumentParsing, TokenizerSetup, BaseModelLoading, WrapperConstruction,
        DatasetAndCollator, TrainingLoop, Persistence]
   \<and> EvGetModel 7 \<in> set (fst (main failed_load_world))
   \<and> raises_in failed_load_world (EvGetModel 7) = Some ''OSError''
   \<and> snd (main failed_load_world) = Inl (Raised (EvGetModel 7) ''OSError'')
   \<and> last (fst (main failed_load_world)) = EvGetModel 7
   \<and> snd (main nonempty_dir_world) = Inl (ValueError (output_dir_message ''out''))
   \<and> stages_entered (fst (main nonempty_dir_world)) = [ArgumentParsing]"
proof -
  have v: "snd (main nonempty_dir_world) = Inl (ValueError (output_dir_message ''out''))"
    by (simp add: main_ValueError[OF oracles_nonempty_dir_world(1)] snd_check_output_dir
        oracles_nonempty_dir_world example_training_args_simps)
  have g: "EvGetModel 7 \<in> set (fst (main failed_load_world))"
    by (simp add: trace_failed_load_world)
  from pipeline_stage_order[of example_world] result_example_world
  have a: "stages_entered (fst (main example_world)) = pipeline"
    by blast
  from pipeline_stage_order[of failed_load_world] g raises_failed_load_world
  have b: "snd (main failed_load_world) = Inl (Raised (EvGetModel 7) ''OSError'')
           \<and> last (fst (main failed_load_world)) = EvGetModel 7"
    by blast
  from pipeline_stage_order[of nonempty_dir_world] v
  have c: "stages_entered (fst (main nonempty_dir_world)) = [ArgumentParsing]"
    by blast
  from a b c v g raises_failed_load_world result_example_world show ?thesis
    by (simp add: pipeline_def)
qed

end
